theory Spec2Isabelle
  imports Complex_Main "HOL-Library.Log_Nat"
begin

section \<open>JavaScript numbers\<close>

text \<open>
  The server is JavaScript, so every number it handles is an IEEE-754 binary64 value.
  A finite value is kept as the exact rational it denotes; the two infinities and NaN
  are separate constructors. The sign of zero is not represented: none of the handlers
  can observe it (JSON prints \<open>-0\<close> as \<open>0\<close>).
\<close>

datatype jsnum = Finite rat | NaN | PosInf | NegInf

text \<open>\<open>ilog2 x\<close> is the exponent \<open>e\<close> with \<open>2^e \<le> x < 2^(e+1)\<close>, for \<open>x > 0\<close>.\<close>

definition ilog2 :: "rat \<Rightarrow> int" where
  "ilog2 x = (case quotient_of x of (p, q) \<Rightarrow>
     (let d = bitlen p - bitlen q in if x < 2 powi d then d - 1 else d))"

definition round_half_even :: "rat \<Rightarrow> int" where
  "round_half_even x = (let f = \<lfloor>x\<rfloor>; d = x - of_int f in
     if d < 1 / 2 then f else if 1 / 2 < d then f + 1 else if even f then f else f + 1)"

text \<open>
  \<open>fl x\<close> is the Number value for the real \<open>x\<close>: round to nearest, ties to even, with
  a 53-bit significand, gradual underflow below \<open>2^-1022\<close> and overflow to an infinity
  from \<open>2^1024 - 2^970\<close> on.
\<close>

definition fl :: "rat \<Rightarrow> jsnum" where
  "fl x = (if x = 0 then Finite 0 else
     (let a = \<bar>x\<bar>; q = max (ilog2 a) (- 1022) - 52;
          r = of_int (round_half_even (a / 2 powi q)) * 2 powi q
      in if 2 ^ 1024 \<le> r then (if 0 < x then PosInf else NegInf)
         else Finite (if 0 < x then r else - r)))"

text \<open>The operator \<open>*\<close> on Numbers.\<close>

fun num_times :: "jsnum \<Rightarrow> jsnum \<Rightarrow> jsnum" where
  "num_times (Finite a) (Finite b) = fl (a * b)"
| "num_times NaN _ = NaN"
| "num_times _ NaN = NaN"
| "num_times (Finite a) PosInf = (if a = 0 then NaN else if 0 < a then PosInf else NegInf)"
| "num_times (Finite a) NegInf = (if a = 0 then NaN else if 0 < a then NegInf else PosInf)"
| "num_times PosInf (Finite b) = (if b = 0 then NaN else if 0 < b then PosInf else NegInf)"
| "num_times NegInf (Finite b) = (if b = 0 then NaN else if 0 < b then NegInf else PosInf)"
| "num_times PosInf PosInf = PosInf"
| "num_times PosInf NegInf = NegInf"
| "num_times NegInf PosInf = NegInf"
| "num_times NegInf NegInf = PosInf"

subsection \<open>Decimal numerals\<close>

function dec_digits :: "int \<Rightarrow> string" where
  "dec_digits n =
     (if n < 10 then [char_of (48 + n)] else dec_digits (n div 10) @ [char_of (48 + n mod 10)])"
  by pat_completeness auto
termination
  by (relation "measure nat") auto

declare dec_digits.simps [simp del]

definition is_digit :: "char \<Rightarrow> bool" where
  "is_digit c = (48 \<le> (of_char c :: int) \<and> (of_char c :: int) \<le> 57)"

definition digit_val :: "char \<Rightarrow> int" where
  "digit_val c = of_char c - 48"

definition digits_val :: "string \<Rightarrow> int" where
  "digits_val ds = foldl (\<lambda>a c. 10 * a + digit_val c) 0 ds"

text \<open>\<open>ndigits n\<close> is the number of decimal digits of \<open>n > 0\<close>.\<close>

function ndigits :: "int \<Rightarrow> int" where
  "ndigits n = (if 0 < n then ndigits (n div 10) + 1 else 0)"
  by pat_completeness auto
termination
  by (relation "measure nat") auto

declare ndigits.simps [simp del]

subsection \<open>Number to string\<close>

text \<open>
  \<open>Number::toString\<close> (ECMAScript 6.1.6.1.20) prints the shortest decimal numeral
  \<open>s * 10^(n-k)\<close>, \<open>s\<close> of \<open>k\<close> digits, whose Number value is the number printed.
  \<open>ilog10 x\<close> is the \<open>n\<close> with \<open>10^(n-1) \<le> x < 10^n\<close>.
\<close>

definition ilog10 :: "rat \<Rightarrow> int" where
  "ilog10 x = (case quotient_of x of (p, q) \<Rightarrow>
     (let d = ndigits p - ndigits q
      in if x < 10 powi d then d else d + 1))"

definition repr_candidates :: "rat \<Rightarrow> nat \<Rightarrow> (int \<times> int) list" where
  "repr_candidates x k =
     (let n0 = ilog10 x; s0 = \<lfloor>x / 10 powi (n0 - int k)\<rfloor> in
      filter (\<lambda>(s, n). 10 ^ (k - 1) \<le> s \<and> s < 10 ^ k \<and>
                       fl (of_int s * 10 powi (n - int k)) = Finite x)
        [(s0, n0), (s0 + 1, n0), (10 ^ (k - 1), n0 + 1)])"

fun closest_repr :: "rat \<Rightarrow> nat \<Rightarrow> (int \<times> int) list \<Rightarrow> (int \<times> int) \<Rightarrow> (int \<times> int)" where
  "closest_repr x k [] best = best"
| "closest_repr x k ((s, n) # cs) (s', n') =
     (let d = \<bar>of_int s * 10 powi (n - int k) - x\<bar>;
          d' = \<bar>of_int s' * 10 powi (n' - int k) - x\<bar>
      in closest_repr x k cs (if d < d' \<or> (d = d' \<and> even s) then (s, n) else (s', n')))"

fun shortest_repr :: "rat \<Rightarrow> nat list \<Rightarrow> nat \<times> int \<times> int" where
  "shortest_repr x [] = (17, \<lfloor>x / 10 powi (ilog10 x - 17)\<rfloor>, ilog10 x)"
| "shortest_repr x (k # ks) =
     (case repr_candidates x k of
        [] \<Rightarrow> shortest_repr x ks
      | c # cs \<Rightarrow> (case closest_repr x k cs c of (s, n) \<Rightarrow> (k, s, n)))"

definition format_repr :: "nat \<Rightarrow> int \<Rightarrow> int \<Rightarrow> string" where
  "format_repr k s n =
     (let ds = dec_digits s in
      if int k \<le> n \<and> n \<le> 21 then ds @ replicate (nat (n - int k)) (CHR ''0'')
      else if 0 < n \<and> n \<le> 21 then take (nat n) ds @ ''.'' @ drop (nat n) ds
      else if - 6 < n \<and> n \<le> 0 then ''0.'' @ replicate (nat (- n)) (CHR ''0'') @ ds
      else (let e = n - 1; es = (if e < 0 then ''-'' else ''+'') @ dec_digits \<bar>e\<bar>
            in if k = 1 then ds @ ''e'' @ es else take 1 ds @ ''.'' @ drop 1 ds @ ''e'' @ es))"

text \<open>
  For an integer below \<open>2^53\<close> the shortest numeral is the integer's own decimal numeral
  (its neighbours among the Numbers are at least 1 away), so that case is written out
  and the search serves the other finite values.
\<close>

definition positive_toString :: "rat \<Rightarrow> string" where
  "positive_toString x =
     (if x = of_int \<lfloor>x\<rfloor> \<and> x < 2 ^ 53 then dec_digits \<lfloor>x\<rfloor>
      else (case shortest_repr x [1 ..< 18] of (k, s, n) \<Rightarrow> format_repr k s n))"

fun Number_toString :: "jsnum \<Rightarrow> string" where
  "Number_toString NaN = ''NaN''"
| "Number_toString PosInf = ''Infinity''"
| "Number_toString NegInf = ''-Infinity''"
| "Number_toString (Finite x) =
     (if x = 0 then ''0'' else if x < 0 then ''-'' @ positive_toString (- x)
      else positive_toString x)"

section \<open>JavaScript values\<close>

text \<open>
  The values that travel through the handlers are what \<open>JSON.parse\<close> produces and what
  object literals build: an object is an association list in insertion order, looked up by
  its first matching key. A string is a list of bytes, so the model covers ASCII text.
\<close>

datatype jsval =
    JUndefined
  | JNull
  | JBool bool
  | JNum jsnum
  | JStr string
  | JArr "jsval list"
  | JObj "(string \<times> jsval) list"

datatype js_error =
    TypeError
  | ReferenceError
  | SignatureError string
  | ApiError string
  | Error string

definition and_then :: "'e + 'a \<Rightarrow> ('a \<Rightarrow> 'e + 'b) \<Rightarrow> 'e + 'b" where
  "and_then m f = (case m of Inl e \<Rightarrow> Inl e | Inr v \<Rightarrow> f v)"

text \<open>\<open>ToBoolean\<close>: what \<open>||\<close>, \<open>!\<close>, \<open>? :\<close> and \<open>filter(Boolean)\<close> test.\<close>

fun truthy :: "jsval \<Rightarrow> bool" where
  "truthy JUndefined = False"
| "truthy JNull = False"
| "truthy (JBool b) = b"
| "truthy (JNum (Finite x)) = (x \<noteq> 0)"
| "truthy (JNum NaN) = False"
| "truthy (JNum PosInf) = True"
| "truthy (JNum NegInf) = True"
| "truthy (JStr s) = (s \<noteq> [])"
| "truthy (JArr xs) = True"
| "truthy (JObj kvs) = True"

text \<open>\<open>a || b\<close>.\<close>

definition js_or :: "jsval \<Rightarrow> jsval \<Rightarrow> jsval" where
  "js_or a b = (if truthy a then a else b)"

fun nullish :: "jsval \<Rightarrow> bool" where
  "nullish JUndefined = True"
| "nullish JNull = True"
| "nullish _ = False"

text \<open>
  Reading a property. \<open>own_prop\<close> is the read on a value that is neither \<open>undefined\<close>
  nor \<open>null\<close>, for the property names the handlers read: all of them are fixed words
  (\<open>type\<close>, \<open>price\<close>, \<open>metadata\<close> and so on), none is an index and none is inherited
  from a prototype, apart from \<open>length\<close>. \<open>get\<close> is \<open>v.k\<close>, which throws a TypeError
  on \<open>undefined\<close> and \<open>null\<close>; \<open>opt_get\<close> is \<open>v?.k\<close>.
\<close>

fun own_prop :: "jsval \<Rightarrow> string \<Rightarrow> jsval" where
  "own_prop (JObj kvs) k = (case map_of kvs k of Some v \<Rightarrow> v | None \<Rightarrow> JUndefined)"
| "own_prop (JArr xs) k =
     (if k = ''length'' then JNum (Finite (of_nat (length xs))) else JUndefined)"
| "own_prop (JStr s) k =
     (if k = ''length'' then JNum (Finite (of_nat (length s))) else JUndefined)"
| "own_prop _ k = JUndefined"

definition get :: "jsval \<Rightarrow> string \<Rightarrow> js_error + jsval" where
  "get v k = (if nullish v then Inl TypeError else Inr (own_prop v k))"

definition opt_get :: "jsval \<Rightarrow> string \<Rightarrow> jsval" where
  "opt_get v k = (if nullish v then JUndefined else own_prop v k)"

text \<open>\<open>v[0]\<close> and \<open>v?.[0]\<close>.\<close>

fun own_first :: "jsval \<Rightarrow> jsval" where
  "own_first (JArr xs) = (case xs of [] \<Rightarrow> JUndefined | x # _ \<Rightarrow> x)"
| "own_first (JObj kvs) = (case map_of kvs ''0'' of Some v \<Rightarrow> v | None \<Rightarrow> JUndefined)"
| "own_first (JStr s) = (case s of [] \<Rightarrow> JUndefined | c # _ \<Rightarrow> JStr [c])"
| "own_first _ = JUndefined"

definition get_first :: "jsval \<Rightarrow> js_error + jsval" where
  "get_first v = (if nullish v then Inl TypeError else Inr (own_first v))"

definition opt_first :: "jsval \<Rightarrow> jsval" where
  "opt_first v = (if nullish v then JUndefined else own_first v)"

subsection \<open>String, parseInt, parseFloat\<close>

text \<open>\<open>String(v)\<close>; an array prints its elements joined by commas.\<close>

fun js_String :: "jsval \<Rightarrow> string" and js_join :: "jsval list \<Rightarrow> string" where
  "js_String JUndefined = ''undefined''"
| "js_String JNull = ''null''"
| "js_String (JBool b) = (if b then ''true'' else ''false'')"
| "js_String (JNum n) = Number_toString n"
| "js_String (JStr s) = s"
| "js_String (JArr xs) = js_join xs"
| "js_String (JObj kvs) = ''[object Object]''"
| "js_join [] = []"
| "js_join [x] = (if nullish x then [] else js_String x)"
| "js_join (x # y # ys) = (if nullish x then [] else js_String x) @ '','' @ js_join (y # ys)"

definition is_space :: "char \<Rightarrow> bool" where
  "is_space c = ((of_char c :: int) \<in> {9, 10, 11, 12, 13, 32})"

definition trim_start :: "string \<Rightarrow> string" where
  "trim_start s = dropWhile is_space s"

text \<open>A leading sign: whether it is a minus, and the rest of the string.\<close>

fun take_sign :: "string \<Rightarrow> bool \<times> string" where
  "take_sign [] = (False, [])"
| "take_sign (c # cs) =
     (if c = CHR ''-'' then (True, cs) else if c = CHR ''+'' then (False, cs) else (False, c # cs))"

text \<open>\<open>parseInt(v, 10)\<close>.\<close>

definition parseInt10 :: "jsval \<Rightarrow> jsnum" where
  "parseInt10 v =
     (case take_sign (trim_start (js_String v)) of (neg, s) \<Rightarrow>
        (let z = takeWhile is_digit s in
         if z = [] then NaN
         else fl (of_int (if neg then - digits_val z else digits_val z))))"

text \<open>
  \<open>parseFloat(v)\<close>: the longest prefix of the trimmed string that is a
  \<open>StrDecimalLiteral\<close>, rounded to a Number; NaN when there is none.
\<close>

definition exponent_part :: "string \<Rightarrow> int" where
  "exponent_part s =
     (case s of
        [] \<Rightarrow> 0
      | c # cs \<Rightarrow>
          if c = CHR ''e'' \<or> c = CHR ''E'' then
            (case take_sign cs of (neg, ds) \<Rightarrow>
               (let z = takeWhile is_digit ds in
                if z = [] then 0 else if neg then - digits_val z else digits_val z))
          else 0)"

definition parseFloat :: "jsval \<Rightarrow> jsnum" where
  "parseFloat v =
     (case take_sign (trim_start (js_String v)) of (neg, s) \<Rightarrow>
        if take 8 s = ''Infinity'' then (if neg then NegInf else PosInf)
        else
          (let ip = takeWhile is_digit s; r1 = dropWhile is_digit s;
               dot = (r1 \<noteq> [] \<and> hd r1 = CHR ''.'');
               fp = (if dot then takeWhile is_digit (tl r1) else []);
               r2 = (if dot then dropWhile is_digit (tl r1) else r1)
           in if ip = [] \<and> fp = [] then NaN
              else
                (let mv = of_int (digits_val (ip @ fp)) *
                          10 powi (exponent_part r2 - int (length fp))
                 in fl (if neg then - mv else mv))))"

text \<open>\<open>xs.map(f)\<close>: a TypeError when \<open>xs\<close> is not an array, or the first error \<open>f\<close> throws.\<close>

fun map_result :: "('a \<Rightarrow> 'e + 'b) \<Rightarrow> 'a list \<Rightarrow> 'e + 'b list" where
  "map_result f [] = Inr []"
| "map_result f (x # xs) =
     and_then (f x) (\<lambda>y. and_then (map_result f xs) (\<lambda>ys. Inr (y # ys)))"

fun js_map :: "(jsval \<Rightarrow> js_error + jsval) \<Rightarrow> jsval \<Rightarrow> js_error + jsval list" where
  "js_map f (JArr xs) = map_result f xs"
| "js_map f _ = Inl TypeError"

section \<open>The outside world\<close>

text \<open>
  The handlers talk to the payment processor (through the \<open>stripe\<close> client) and to the
  fulfillment provider (through \<open>axios\<close>). What those answer is not decided by the
  server, so it is a parameter: an \<open>env\<close> gives the answer to every call, \<open>Inl\<close> being a
  thrown error or a rejected promise with its message. Every outbound call a handler
  makes is recorded, in order.
\<close>

datatype call =
    ListLineItems jsval nat
  | RetrieveSession jsval
  | CreateSession jsval
  | PrintfulCreateOrder jsval
  | PrintfulListProducts
  | PrintfulGetProduct jsval

record env =
  endpointSecret :: jsval
  frontendUrl :: jsval
  constructEvent :: "jsval \<Rightarrow> jsval \<Rightarrow> jsval \<Rightarrow> string + jsval"
  listLineItems :: "jsval \<Rightarrow> nat \<Rightarrow> string + jsval"
  retrieveSession :: "jsval \<Rightarrow> string + jsval"
  createSession :: "jsval \<Rightarrow> string + jsval"
  printfulCreateOrder :: "jsval \<Rightarrow> string + jsval"
  printfulListProducts :: "string + jsval"
  printfulGetProduct :: "jsval \<Rightarrow> string + jsval"

record request =
  headers :: "(string \<times> string) list"
  body :: jsval

definition header :: "request \<Rightarrow> string \<Rightarrow> jsval" where
  "header req k = (case map_of (headers req) k of Some v \<Rightarrow> JStr v | None \<Rightarrow> JUndefined)"

datatype payload =
    Text string
  | Json jsval
  | WebhookError js_error
  | SessionError js_error
  | ParserError string

record response =
  status :: nat
  payload :: payload

text \<open>
  What a handler did: the response it sent (\<open>None\<close> when it sent none), the outbound
  calls it made, and the errors its \<open>catch\<close> blocks reported with \<open>console.error\<close>.
  A response body that is built from an error's message keeps the error itself.
\<close>

record outcome =
  sent :: "response option"
  calls :: "call list"
  logged :: "js_error list"

section \<open>The webhook of server.js\<close>

text \<open>
  The handler of \<open>POST /webhook\<close> in server.js (lines 35 to 102). The repository holds
  a second copy of server.js with fewer comments, whose handler is the same; what follows
  is the model of both. It starts with the callback of \<open>lineItems.data.map\<close> (lines 52
  to 60).
\<close>

definition printful_item :: "jsval \<Rightarrow> js_error + jsval" where
  "printful_item item =
     and_then (get item ''price'') (\<lambda>price.
     and_then (get price ''metadata'') (\<lambda>metadata.
     and_then (get metadata ''variant_id'') (\<lambda>variantId.
       Inr (JObj [(''variant_id'', JNum (parseInt10 variantId)),
                  (''quantity'', own_prop item ''quantity'')]))))"

text \<open>The recipient literal (server.js, lines 63 to 72).\<close>

definition recipient_of :: "jsval \<Rightarrow> js_error + jsval" where
  "recipient_of session =
     and_then (get session ''customer_details'') (\<lambda>customer_details.
     and_then (get customer_details ''name'') (\<lambda>name.
     and_then (get customer_details ''address'') (\<lambda>address.
     and_then (get address ''line1'') (\<lambda>line1.
       Inr (JObj
         [(''name'', js_or name (JStr ''No Name Provided'')),
          (''address1'', js_or line1 (JStr '''')),
          (''address2'', js_or (own_prop address ''line2'') (JStr '''')),
          (''city'', js_or (own_prop address ''city'') (JStr '''')),
          (''state_code'', js_or (own_prop address ''state'') (JStr '''')),
          (''country_code'', js_or (own_prop address ''country'') (JStr ''US'')),
          (''zip'', js_or (own_prop address ''postal_code'') (JStr ''''))])))))"

text \<open>
  The body of the \<open>try\<close> block after the event is constructed (server.js, lines 43 to
  95): the error that escapes to the outer \<open>catch\<close>, if any, the calls made and the
  errors the inner \<open>catch\<close> logged.
\<close>

definition submit_order ::
  "env \<Rightarrow> jsval \<Rightarrow> call list \<Rightarrow> js_error option \<times> call list \<times> js_error list" where
  "submit_order env order before =
     (case and_then (case printfulCreateOrder env order of
                       Inl msg \<Rightarrow> Inl (ApiError msg) | Inr r \<Rightarrow> Inr r)
             (\<lambda>printfulResponse. get printfulResponse ''data'') of
        Inl e \<Rightarrow> (None, before @ [PrintfulCreateOrder order], [e])
      | Inr _ \<Rightarrow> (None, before @ [PrintfulCreateOrder order], []))"

definition on_completed :: "env \<Rightarrow> jsval \<Rightarrow> js_error option \<times> call list \<times> js_error list" where
  "on_completed env session =
     (case get session ''id'' of
        Inl e \<Rightarrow> (Some e, [], [])
      | Inr sid \<Rightarrow>
          (case listLineItems env sid 100 of
             Inl msg \<Rightarrow> (Some (ApiError msg), [ListLineItems sid 100], [])
           | Inr lineItems \<Rightarrow>
               (case and_then (get lineItems ''data'') (js_map printful_item) of
                  Inl e \<Rightarrow> (Some e, [ListLineItems sid 100], [])
                | Inr printfulItems \<Rightarrow>
                    (case recipient_of session of
                       Inl e \<Rightarrow> (Some e, [ListLineItems sid 100], [])
                     | Inr recipient \<Rightarrow>
                         submit_order env
                           (JObj [(''recipient'', recipient),
                                  (''items'', JArr printfulItems),
                                  (''confirm'', JNum (Finite 1))])
                           [ListLineItems sid 100]))))"

definition on_event :: "env \<Rightarrow> jsval \<Rightarrow> js_error option \<times> call list \<times> js_error list" where
  "on_event env event =
     (case get event ''type'' of
        Inl e \<Rightarrow> (Some e, [], [])
      | Inr t \<Rightarrow>
          if t = JStr ''checkout.session.completed'' then
            (case and_then (get event ''data'') (\<lambda>d. get d ''object'') of
               Inl e \<Rightarrow> (Some e, [], [])
             | Inr session \<Rightarrow> on_completed env session)
          else (None, [], []))"

text \<open>
  The two ends of the handler: the \<open>catch\<close> answers 400 with the message of whatever was
  thrown, the end of the \<open>try\<close> answers 200.
\<close>

definition finish :: "js_error option \<times> call list \<times> js_error list \<Rightarrow> outcome" where
  "finish r =
     (case r of
        (Some e, cs, ls) \<Rightarrow>
          \<lparr>sent = Some \<lparr>status = 400, payload = WebhookError e\<rparr>,
           calls = cs, logged = ls @ [e]\<rparr>
      | (None, cs, ls) \<Rightarrow>
          \<lparr>sent = Some \<lparr>status = 200, payload = Text ''Webhook received!''\<rparr>,
           calls = cs, logged = ls\<rparr>)"

definition verify :: "env \<Rightarrow> request \<Rightarrow> string + jsval" where
  "verify env req =
     constructEvent env (body req) (header req ''stripe-signature'') (endpointSecret env)"

definition webhook :: "env \<Rightarrow> request \<Rightarrow> outcome" where
  "webhook env req =
     (case verify env req of
        Inl msg \<Rightarrow> finish (Some (SignatureError msg), [], [])
      | Inr event \<Rightarrow> finish (on_event env event))"

section \<open>The webhook that hands over to handleCheckoutSessionCompleted\<close>

text \<open>
  A second server file of the repository (its webhook is at lines 31 to 54, the
  function \<open>handleCheckoutSessionCompleted\<close> at lines 193 to 248) retrieves the session
  with its line items expanded and reads the identifiers from the product's metadata.
  The callback of \<open>line_items.data.map\<close> returns \<open>null\<close> for an item without its
  identifiers; \<open>filter(Boolean)\<close> then drops it.
\<close>

definition order_item :: "jsval \<Rightarrow> js_error + jsval" where
  "order_item item =
     and_then (get item ''price'') (\<lambda>price.
     and_then (get price ''product'') (\<lambda>product.
     and_then (get product ''metadata'') (\<lambda>metadata.
     and_then (get metadata ''variant_id'') (\<lambda>variantId.
       (let productId = own_prop metadata ''product_id'' in
        if \<not> truthy variantId \<or> \<not> truthy productId then Inr JNull
        else Inr (JObj [(''sync_variant_id'', variantId),
                        (''quantity'', own_prop item ''quantity'')]))))))"

definition order_recipient :: "jsval \<Rightarrow> js_error + jsval" where
  "order_recipient session =
     (let customer_details = own_prop session ''customer_details'';
          address = own_prop customer_details ''address''
      in and_then (get address ''line1'') (\<lambda>line1.
           Inr (JObj
             [(''name'', js_or (own_prop customer_details ''name'') (JStr ''No Name'')),
              (''address1'', line1),
              (''city'', own_prop address ''city''),
              (''state_code'', own_prop address ''state''),
              (''country_code'', own_prop address ''country''),
              (''zip'', own_prop address ''postal_code''),
              (''email'', own_prop session ''customer_email''),
              (''phone'', js_or (own_prop customer_details ''phone'') (JStr ''''))])))"

text \<open>
  The function is \<open>async\<close> and catches everything it throws: it returns the calls it
  made and the error it logged, if any.
\<close>

definition handleCheckoutSessionCompleted :: "env \<Rightarrow> jsval \<Rightarrow> call list \<times> js_error list" where
  "handleCheckoutSessionCompleted env session =
     (case get session ''id'' of
        Inl e \<Rightarrow> ([], [e])
      | Inr sid \<Rightarrow>
          (case retrieveSession env sid of
             Inl msg \<Rightarrow> ([RetrieveSession sid], [ApiError msg])
           | Inr checkoutSession \<Rightarrow>
               (case and_then (get checkoutSession ''line_items'') (\<lambda>line_items.
                     and_then (get line_items ''data'') (js_map order_item)) of
                  Inl e \<Rightarrow> ([RetrieveSession sid], [e])
                | Inr mapped \<Rightarrow>
                    (let orderItems = filter truthy mapped in
                     if orderItems = [] then
                       ([RetrieveSession sid], [Error ''No valid items for Printful order.''])
                     else if \<not> truthy (own_prop session ''customer_details'') then
                       ([RetrieveSession sid], [Error ''Missing customer details in session.''])
                     else
                       (case order_recipient session of
                          Inl e \<Rightarrow> ([RetrieveSession sid], [e])
                        | Inr recipient \<Rightarrow>
                            (case submit_order env
                                    (JObj [(''recipient'', recipient), (''items'', JArr orderItems)])
                                    [RetrieveSession sid] of
                               (_, cs, ls) \<Rightarrow> (cs, ls)))))))"

text \<open>
  The webhook calls the function without awaiting it, so nothing the function does
  reaches the webhook's \<open>catch\<close>.
\<close>

definition on_event_handover :: "env \<Rightarrow> jsval \<Rightarrow> js_error option \<times> call list \<times> js_error list" where
  "on_event_handover env event =
     (case get event ''type'' of
        Inl e \<Rightarrow> (Some e, [], [])
      | Inr t \<Rightarrow>
          if t = JStr ''checkout.session.completed'' then
            (case and_then (get event ''data'') (\<lambda>d. get d ''object'') of
               Inl e \<Rightarrow> (Some e, [], [])
             | Inr session \<Rightarrow>
                 (case handleCheckoutSessionCompleted env session of (cs, ls) \<Rightarrow> (None, cs, ls)))
          else (None, [], []))"

definition webhook_handover :: "env \<Rightarrow> request \<Rightarrow> outcome" where
  "webhook_handover env req =
     (case verify env req of
        Inl msg \<Rightarrow> finish (Some (SignatureError msg), [], [])
      | Inr event \<Rightarrow> finish (on_event_handover env event))"

text \<open>
  A third server file has the same webhook (lines 37 to 60) and no definition of
  \<open>handleCheckoutSessionCompleted\<close>: the call throws a ReferenceError inside the \<open>try\<close>.
  In every handler \<open>body req\<close> stands for what the handler finds in \<open>req.body\<close>;
  which parsers have been at the request before, file by file, is modelled further down.
\<close>

definition on_event_undefined :: "env \<Rightarrow> jsval \<Rightarrow> js_error option \<times> call list \<times> js_error list" where
  "on_event_undefined env event =
     (case get event ''type'' of
        Inl e \<Rightarrow> (Some e, [], [])
      | Inr t \<Rightarrow>
          if t = JStr ''checkout.session.completed'' then
            (case and_then (get event ''data'') (\<lambda>d. get d ''object'') of
               Inl e \<Rightarrow> (Some e, [], [])
             | Inr session \<Rightarrow> (Some ReferenceError, [], []))
          else (None, [], []))"

definition webhook_undefined :: "env \<Rightarrow> request \<Rightarrow> outcome" where
  "webhook_undefined env req =
     (case verify env req of
        Inl msg \<Rightarrow> finish (Some (SignatureError msg), [], [])
      | Inr event \<Rightarrow> finish (on_event_undefined env event))"

section \<open>Checkout session creation (server.js, lines 197 to 253)\<close>

text \<open>The callback of \<open>cart.map\<close> (lines 207 to 221).\<close>

definition line_item :: "jsval \<Rightarrow> js_error + jsval" where
  "line_item item =
     and_then (get item ''name'') (\<lambda>name.
       Inr (JObj
         [(''price_data'', JObj
            [(''currency'', JStr ''usd''),
             (''product_data'', JObj
                [(''name'', name),
                 (''images'', JArr [own_prop item ''thumbnail_url''])]),
             (''unit_amount'', own_prop item ''price''),
             (''metadata'', JObj
                [(''variant_id'', JStr (js_String (own_prop item ''variant_id''))),
                 (''product_id'', JStr (js_String (own_prop item ''id'')))])]),
          (''quantity'', own_prop item ''quantity'')]))"

text \<open>The argument of \<open>stripeClient.checkout.sessions.create\<close> (lines 227 to 238).\<close>

definition session_params :: "env \<Rightarrow> jsval list \<Rightarrow> jsval \<Rightarrow> jsval" where
  "session_params env lineItems email =
     JObj
       [(''payment_method_types'', JArr [JStr ''card'']),
        (''line_items'', JArr lineItems),
        (''mode'', JStr ''payment''),
        (''customer_email'', email),
        (''success_url'',
           JStr (js_String (frontendUrl env) @ ''/success?session_id={CHECKOUT_SESSION_ID}'')),
        (''cancel_url'', JStr (js_String (frontendUrl env) @ ''/cancel'')),
        (''shipping_address_collection'',
           JObj [(''allowed_countries'', JArr [JStr ''US'', JStr ''CA''])]),
        (''billing_address_collection'', JStr ''required'')]"

text \<open>
  The handler reads \<open>cart\<close> and \<open>customerInfo\<close> off the request body before its \<open>try\<close>
  block; a body that is \<open>undefined\<close> makes the \<open>async\<close> handler reject before it has
  sent anything, and what the framework does then is not modelled (\<open>sent\<close> is \<open>None\<close>).
  Everything thrown inside the \<open>try\<close> is answered with 500.
\<close>

definition create_checkout_session :: "env \<Rightarrow> request \<Rightarrow> outcome" where
  "create_checkout_session env req =
     (if nullish (body req) then \<lparr>sent = None, calls = [], logged = []\<rparr>
      else
        (let cart = own_prop (body req) ''cart'';
             customerInfo = own_prop (body req) ''customerInfo''
         in case and_then (js_map line_item cart) (\<lambda>lineItems.
                 and_then (get customerInfo ''email'') (\<lambda>email.
                   Inr (session_params env lineItems email))) of
              Inl e \<Rightarrow>
                \<lparr>sent = Some \<lparr>status = 500, payload = SessionError e\<rparr>,
                 calls = [], logged = [e]\<rparr>
            | Inr params \<Rightarrow>
                (case and_then (case createSession env params of
                                  Inl msg \<Rightarrow> Inl (ApiError msg) | Inr s \<Rightarrow> Inr s)
                        (\<lambda>session. get session ''id'') of
                   Inl e \<Rightarrow>
                     \<lparr>sent = Some \<lparr>status = 500, payload = SessionError e\<rparr>,
                      calls = [CreateSession params], logged = [e]\<rparr>
                 | Inr sid \<Rightarrow>
                     \<lparr>sent = Some \<lparr>status = 200, payload = Json (JObj [(''id'', sid)])\<rparr>,
                      calls = [CreateSession params], logged = []\<rparr>)))"

section \<open>The catalog reader (server.js, lines 115 to 194)\<close>

text \<open>\<open>files.find((file) => file.type === 'preview')\<close>.\<close>

fun find_preview_in :: "jsval list \<Rightarrow> js_error + jsval" where
  "find_preview_in [] = Inr JUndefined"
| "find_preview_in (file # files) =
     and_then (get file ''type'') (\<lambda>t.
       if t = JStr ''preview'' then Inr file else find_preview_in files)"

fun find_preview :: "jsval \<Rightarrow> js_error + jsval" where
  "find_preview (JArr files) = find_preview_in files"
| "find_preview _ = Inl TypeError"

text \<open>\<open>parseFloat(p) * 100\<close>.\<close>

definition to_cents :: "jsval \<Rightarrow> jsval" where
  "to_cents p = JNum (num_times (parseFloat p) (Finite 100))"

text \<open>
  One entry of the product list (lines 135 to 150), from a product of the list call and
  the result of its detail call.
\<close>

definition product_summary :: "jsval \<Rightarrow> jsval \<Rightarrow> js_error + jsval" where
  "product_summary product details =
     and_then (get details ''sync_variants'') (\<lambda>sync_variants.
       (let retail_price = opt_get (opt_first sync_variants) ''retail_price'';
            price = (if truthy retail_price then to_cents retail_price else JNum (Finite 0))
        in and_then (get_first sync_variants) (\<lambda>variant.
           and_then (if nullish variant then Inr JUndefined
                     else and_then (find_preview (own_prop variant ''files''))
                            (\<lambda>file. Inr (opt_get file ''preview_url''))) (\<lambda>preview_url.
             (let mockupImage = js_or preview_url (own_prop product ''thumbnail_url'') in
              Inr (JObj
                [(''id'', own_prop product ''id''),
                 (''name'', js_or (own_prop product ''name'') (JStr ''No name available'')),
                 (''thumbnail_url'', js_or mockupImage (JStr ''default_image_url'')),
                 (''price'', price),
                 (''variant_id'', js_or (opt_get (opt_first sync_variants) ''id'') JNull)]))))))"

text \<open>The callback of \<open>response.data.result.map\<close>: the detail call, then the entry.\<close>

definition detailed_product :: "env \<Rightarrow> jsval \<Rightarrow> js_error + jsval" where
  "detailed_product env product =
     and_then (get product ''id'') (\<lambda>id.
     and_then (case printfulGetProduct env (JStr (js_String id)) of
                 Inl msg \<Rightarrow> Inl (ApiError msg) | Inr r \<Rightarrow> Inr r) (\<lambda>detailsResponse.
     and_then (get detailsResponse ''data'') (\<lambda>d.
     and_then (get d ''result'') (\<lambda>details. product_summary product details))))"

text \<open>
  \<open>GET /api/products\<close>. The callbacks are \<open>async\<close> and run under \<open>Promise.all\<close>: each
  one issues its detail call, and one rejection fails the whole request. Which rejection
  \<open>Promise.all\<close> reports when several callbacks fail depends on timing; the model logs
  the first in list order, and the response is the same for all.
\<close>

definition get_products :: "env \<Rightarrow> outcome" where
  "get_products env =
     (let failure = \<lparr>status = 500, payload = Json (JObj [(''error'', JStr ''Failed to fetch products.'')])\<rparr>
      in case printfulListProducts env of
           Inl msg \<Rightarrow>
             \<lparr>sent = Some failure, calls = [PrintfulListProducts], logged = [ApiError msg]\<rparr>
         | Inr response \<Rightarrow>
             (case and_then (get response ''data'') (\<lambda>d.
                   and_then (get d ''result'') (\<lambda>result.
                   and_then (get result ''length'') (\<lambda>_. Inr result))) of
                Inl e \<Rightarrow> \<lparr>sent = Some failure, calls = [PrintfulListProducts], logged = [e]\<rparr>
              | Inr (JArr products) \<Rightarrow>
                  (let cs = PrintfulListProducts #
                            map (\<lambda>p. PrintfulGetProduct (JStr (js_String (own_prop p ''id''))))
                              (filter (\<lambda>p. \<not> nullish p) products)
                   in case map_result (detailed_product env) products of
                        Inl e \<Rightarrow> \<lparr>sent = Some failure, calls = cs, logged = [e]\<rparr>
                      | Inr detailedProducts \<Rightarrow>
                          \<lparr>sent = Some \<lparr>status = 200,
                              payload = Json (JObj [(''products'', JArr detailedProducts)])\<rparr>,
                           calls = cs, logged = []\<rparr>)
              | Inr _ \<Rightarrow>
                  \<lparr>sent = Some failure, calls = [PrintfulListProducts], logged = [TypeError]\<rparr>))"

text \<open>One variant of the product detail (lines 180 to 186).\<close>

definition variant_detail :: "jsval \<Rightarrow> js_error + jsval" where
  "variant_detail variant =
     and_then (get variant ''id'') (\<lambda>id.
       (let files = own_prop variant ''files'' in
        and_then (if nullish files then Inr JUndefined
                  else and_then (find_preview files)
                         (\<lambda>file. Inr (opt_get file ''preview_url''))) (\<lambda>preview_url.
          Inr (JObj
            [(''id'', id),
             (''name'', own_prop variant ''name''),
             (''price'', to_cents (own_prop variant ''retail_price'')),
             (''thumbnail_url'', js_or preview_url JNull)]))))"

text \<open>The product detail object (lines 175 to 187).\<close>

definition product_details :: "jsval \<Rightarrow> js_error + jsval" where
  "product_details product =
     and_then (get product ''sync_product'') (\<lambda>sync_product.
     and_then (get sync_product ''id'') (\<lambda>id.
     and_then (js_map variant_detail (own_prop product ''sync_variants'')) (\<lambda>variants.
       Inr (JObj
         [(''id'', id),
          (''name'', own_prop sync_product ''name''),
          (''description'',
             js_or (own_prop sync_product ''description'') (JStr ''No description available'')),
          (''thumbnail_url'', own_prop sync_product ''thumbnail_url''),
          (''variants'', JArr variants)]))))"

text \<open>\<open>GET /api/products/:id\<close>.\<close>

definition get_product :: "env \<Rightarrow> string \<Rightarrow> outcome" where
  "get_product env productId =
     (case and_then (case printfulGetProduct env (JStr productId) of
                       Inl msg \<Rightarrow> Inl (ApiError msg) | Inr r \<Rightarrow> Inr r) (\<lambda>response.
           and_then (get response ''data'') (\<lambda>d.
           and_then (get d ''result'') product_details)) of
        Inl e \<Rightarrow>
          \<lparr>sent = Some \<lparr>status = 500,
              payload = Json (JObj [(''error'', JStr ''Internal server error'')])\<rparr>,
           calls = [PrintfulGetProduct (JStr productId)], logged = [e]\<rparr>
      | Inr productDetails \<Rightarrow>
          \<lparr>sent = Some \<lparr>status = 200, payload = Json productDetails\<rparr>,
           calls = [PrintfulGetProduct (JStr productId)], logged = []\<rparr>)"

section \<open>Scenarios\<close>

text \<open>
  What the payment processor lists for a line item the server created from
  \<open>price_data\<close>: a price that carries the amount and the metadata given at creation,
  and the quantity.
\<close>

definition as_listed :: "jsval \<Rightarrow> jsval" where
  "as_listed li =
     (let price_data = own_prop li ''price_data'' in
      JObj [(''price'', JObj [(''unit_amount'', own_prop price_data ''unit_amount''),
                              (''metadata'', own_prop price_data ''metadata'')]),
            (''quantity'', own_prop li ''quantity'')])"

text \<open>
  The processor's answer to a list call with a limit, over the items it holds for the
  session: the first \<open>limit\<close> of them, and whether there are more.
\<close>

definition first_page :: "nat \<Rightarrow> jsval list \<Rightarrow> jsval" where
  "first_page limit items =
     JObj [(''object'', JStr ''list''),
           (''data'', JArr (take limit items)),
           (''has_more'', JBool (limit < length items))]"

text \<open>\<open>Number.isSafeInteger\<close>: the identifiers the fulfillment provider hands out.\<close>

fun is_safe_integer :: "jsval \<Rightarrow> bool" where
  "is_safe_integer (JNum (Finite x)) = (x = of_int \<lfloor>x\<rfloor> \<and> \<bar>x\<bar> < 2 ^ 53)"
| "is_safe_integer _ = False"

text \<open>The order line a cart item stands for: its variant identifier and its quantity.\<close>

definition expected_order_line :: "jsval \<Rightarrow> jsval" where
  "expected_order_line item =
     JObj [(''variant_id'', own_prop item ''variant_id''),
           (''quantity'', own_prop item ''quantity'')]"

text \<open>The sum of price times quantity, over a cart and over the line items of a session.\<close>

fun amount :: "jsval \<Rightarrow> rat" where
  "amount (JNum (Finite x)) = x"
| "amount _ = 0"

definition cart_total :: "jsval list \<Rightarrow> rat" where
  "cart_total items =
     sum_list (map (\<lambda>item. amount (own_prop item ''price'') * amount (own_prop item ''quantity''))
                 items)"

definition session_total :: "jsval list \<Rightarrow> rat" where
  "session_total lineItems =
     sum_list (map (\<lambda>li. amount (own_prop (own_prop li ''price_data'') ''unit_amount'') *
                          amount (own_prop li ''quantity'')) lineItems)"

text \<open>An event of the kind the webhook acts on, around a session.\<close>

definition completed_event :: "jsval \<Rightarrow> jsval" where
  "completed_event session =
     JObj [(''id'', JStr ''evt_1''),
           (''type'', JStr ''checkout.session.completed''),
           (''data'', JObj [(''object'', session)])]"

text \<open>
  A stand-in for the two services: the signature header \<open>valid\<close> verifies under the
  configured secret and yields the given event, the list call answers as given, and the
  fulfillment provider accepts every order.
\<close>

definition stub_env :: "jsval \<Rightarrow> (nat \<Rightarrow> string + jsval) \<Rightarrow> env" where
  "stub_env event listing =
     \<lparr>endpointSecret = JStr ''whsec_test'',
      frontendUrl = JStr ''https://shop.example'',
      constructEvent = (\<lambda>payload sig secret.
         if sig = JStr ''valid'' \<and> secret = JStr ''whsec_test'' then Inr event
         else Inl ''No signatures found matching the expected signature for payload''),
      listLineItems = (\<lambda>sid limit. listing limit),
      retrieveSession = (\<lambda>sid.
         case listing 100 of
           Inl msg \<Rightarrow> Inl msg
         | Inr page \<Rightarrow> Inr (JObj [(''id'', sid), (''line_items'', page)])),
      createSession = (\<lambda>params. Inr (JObj [(''id'', JStr ''cs_test_1'')])),
      printfulCreateOrder = (\<lambda>order. Inr (JObj [(''data'', JObj [(''code'', JNum (Finite 200))])])),
      printfulListProducts = Inl ''Request failed with status code 503'',
      printfulGetProduct = (\<lambda>id. Inl ''Request failed with status code 503'')\<rparr>"

definition signed_request :: request where
  "signed_request = \<lparr>headers = [(''stripe-signature'', ''valid'')], body = JStr ''{}''\<rparr>"

definition forged_request :: request where
  "forged_request = \<lparr>headers = [(''stripe-signature'', ''forged'')], body = JStr ''{}''\<rparr>"

definition example_session :: jsval where
  "example_session =
     JObj [(''id'', JStr ''cs_test_1''),
           (''customer_email'', JStr ''pat@example.com''),
           (''customer_details'', JObj
              [(''name'', JStr ''Pat Doe''),
               (''phone'', JStr ''555-0100''),
               (''address'', JObj
                  [(''line1'', JStr ''1 Main St''),
                   (''line2'', JNull),
                   (''city'', JStr ''Springfield''),
                   (''state'', JStr ''IL''),
                   (''country'', JStr ''US''),
                   (''postal_code'', JStr ''62701'')])])]"

definition example_cart :: "jsval list" where
  "example_cart =
     [JObj [(''id'', JNum (Finite 301)), (''name'', JStr ''Dad hat''),
            (''price'', JNum (Finite 1999)), (''thumbnail_url'', JStr ''hat.png''),
            (''variant_id'', JNum (Finite 4012345678)), (''quantity'', JNum (Finite 2))],
      JObj [(''id'', JNum (Finite 302)), (''name'', JStr ''Beanie''),
            (''price'', JNum (Finite 2500)), (''thumbnail_url'', JStr ''beanie.png''),
            (''variant_id'', JNum (Finite 4012345679)), (''quantity'', JNum (Finite 1))]]"

text \<open>The line items the checkout handler builds for the example cart.\<close>

definition example_line_items :: "jsval list" where
  "example_line_items =
     [JObj
        [(''price_data'', JObj
           [(''currency'', JStr ''usd''),
            (''product_data'', JObj
               [(''name'', JStr ''Dad hat''), (''images'', JArr [JStr ''hat.png''])]),
            (''unit_amount'', JNum (Finite 1999)),
            (''metadata'', JObj
               [(''variant_id'', JStr ''4012345678''), (''product_id'', JStr ''301'')])]),
         (''quantity'', JNum (Finite 2))],
      JObj
        [(''price_data'', JObj
           [(''currency'', JStr ''usd''),
            (''product_data'', JObj
               [(''name'', JStr ''Beanie''), (''images'', JArr [JStr ''beanie.png''])]),
            (''unit_amount'', JNum (Finite 2500)),
            (''metadata'', JObj
               [(''variant_id'', JStr ''4012345679''), (''product_id'', JStr ''302'')])]),
         (''quantity'', JNum (Finite 1))]]"

definition checkout_request :: request where
  "checkout_request =
     \<lparr>headers = [],
      body = JObj [(''cart'', JArr example_cart),
                   (''customerInfo'', JObj [(''email'', JStr ''pat@example.com'')])]\<rparr>"

text \<open>
  A variant has no preview image when it has no list of files, or none of its files is
  of type \<open>preview\<close>.
\<close>

definition lacks_preview :: "jsval \<Rightarrow> bool" where
  "lacks_preview variant =
     (case own_prop variant ''files'' of
        JUndefined \<Rightarrow> True
      | JNull \<Rightarrow> True
      | JArr files \<Rightarrow> list_all (\<lambda>file. own_prop file ''type'' \<noteq> JStr ''preview'') files
      | _ \<Rightarrow> False)"

text \<open>
  What the fulfillment provider answers for a product that has a thumbnail but neither a
  name nor a description, and whose only variant has no preview file.
\<close>

definition plain_product :: jsval where
  "plain_product =
     JObj [(''sync_product'', JObj
              [(''id'', JNum (Finite 301)), (''thumbnail_url'', JStr ''hat.png'')]),
           (''sync_variants'', JArr
              [JObj [(''id'', JNum (Finite 4012345678)),
                     (''name'', JStr ''Dad hat / Black''),
                     (''retail_price'', JStr ''25.00''),
                     (''files'', JArr [JObj [(''type'', JStr ''default''),
                                            (''preview_url'', JStr ''print.png'')]])]])]"

definition listed_product :: jsval where
  "listed_product = JObj [(''id'', JNum (Finite 301)), (''thumbnail_url'', JStr ''hat.png'')]"

definition catalog_env :: env where
  "catalog_env =
     (stub_env JNull (\<lambda>n. Inl ''unused''))
       \<lparr>printfulListProducts :=
          Inr (JObj [(''data'', JObj [(''result'', JArr
                 [listed_product])])]),
        printfulGetProduct :=
          (\<lambda>id. Inr (JObj [(''data'', JObj [(''result'', plain_product)])]))\<rparr>"

text \<open>A session whose customer gave no country and no second address line.\<close>

definition sparse_session :: jsval where
  "sparse_session =
     JObj [(''id'', JStr ''cs_test_2''),
           (''customer_email'', JStr ''sam@example.com''),
           (''customer_details'', JObj
              [(''name'', JNull),
               (''address'', JObj
                  [(''line1'', JStr ''2 Side St''),
                   (''city'', JStr ''Shelbyville''),
                   (''state'', JStr ''IL''),
                   (''postal_code'', JStr ''62565'')])])]"

text \<open>
  Line items as the processor returns them to the webhook of server.js: the first with
  its variant identifier in the price metadata, the second without.
\<close>

definition listed_with_id :: jsval where
  "listed_with_id =
     JObj [(''price'', JObj [(''metadata'', JObj [(''variant_id'', JStr ''4012345678''),
                                                 (''product_id'', JStr ''301'')])]),
           (''quantity'', JNum (Finite 2))]"

definition listed_without_id :: jsval where
  "listed_without_id =
     JObj [(''price'', JObj [(''metadata'', JObj [])]),
           (''quantity'', JNum (Finite 1))]"

text \<open>The same two, as \<open>handleCheckoutSessionCompleted\<close> retrieves them with the product expanded.\<close>

definition retrieved_with_id :: jsval where
  "retrieved_with_id =
     JObj [(''price'', JObj [(''product'', JObj
              [(''metadata'', JObj [(''variant_id'', JStr ''4012345678''),
                                    (''product_id'', JStr ''301'')])])]),
           (''quantity'', JNum (Finite 2))]"

definition retrieved_without_id :: jsval where
  "retrieved_without_id =
     JObj [(''price'', JObj [(''product'', JObj [(''metadata'', JObj [])])]),
           (''quantity'', JNum (Finite 1))]"

text \<open>The same product in the list call, and the payloads the two endpoints build for it.\<close>

definition plain_entry :: jsval where
  "plain_entry =
     JObj [(''id'', JNum (Finite 301)),
           (''name'', JStr ''No name available''),
           (''thumbnail_url'', JStr ''hat.png''),
           (''price'', JNum (Finite 2500)),
           (''variant_id'', JNum (Finite 4012345678))]"

definition plain_detail :: jsval where
  "plain_detail =
     JObj [(''id'', JNum (Finite 301)),
           (''name'', JUndefined),
           (''description'', JStr ''No description available''),
           (''thumbnail_url'', JStr ''hat.png''),
           (''variants'', JArr
              [JObj [(''id'', JNum (Finite 4012345678)),
                     (''name'', JStr ''Dad hat / Black''),
                     (''price'', JNum (Finite 2500)),
                     (''thumbnail_url'', JNull)]])]"

definition bare_variant :: jsval where
  "bare_variant = JObj [(''id'', JNum (Finite 7)), (''retail_price'', JStr ''25.00'')]"

definition bare_variant_shown :: jsval where
  "bare_variant_shown =
     JObj [(''id'', JNum (Finite 7)), (''name'', JUndefined),
           (''price'', JNum (Finite 2500)), (''thumbnail_url'', JNull)]"

text \<open>
  What \<open>handleCheckoutSessionCompleted\<close> reads off a retrieved line item: the metadata
  of the expanded product, whether both identifiers are there, and the order line of an
  item that has them.
\<close>

definition product_metadata :: "jsval \<Rightarrow> jsval" where
  "product_metadata item = own_prop (own_prop (own_prop item ''price'') ''product'') ''metadata''"

definition has_product_metadata :: "jsval \<Rightarrow> bool" where
  "has_product_metadata item =
     (\<not> nullish item \<and> \<not> nullish (own_prop item ''price'') \<and>
      \<not> nullish (own_prop (own_prop item ''price'') ''product'') \<and>
      \<not> nullish (product_metadata item))"

definition has_identifiers :: "jsval \<Rightarrow> bool" where
  "has_identifiers item =
     (truthy (own_prop (product_metadata item) ''variant_id'') \<and>
      truthy (own_prop (product_metadata item) ''product_id''))"

definition kept_line :: "jsval \<Rightarrow> jsval" where
  "kept_line item =
     JObj [(''sync_variant_id'', own_prop (product_metadata item) ''variant_id''),
           (''quantity'', own_prop item ''quantity'')]"

text \<open>A session that carries no customer details at all.\<close>

definition anonymous_session :: jsval where
  "anonymous_session = JObj [(''id'', JStr ''cs_test_3'')]"

text \<open>A variant priced 19.99, and a product of the detail call that has just this variant.\<close>

definition priced_variant :: jsval where
  "priced_variant =
     JObj [(''id'', JNum (Finite 4012345678)),
           (''name'', JStr ''Dad hat / Black''),
           (''retail_price'', JStr ''19.99''),
           (''files'', JArr [JObj [(''type'', JStr ''preview''),
                                  (''preview_url'', JStr ''mockup.png'')]])]"

definition priced_product :: jsval where
  "priced_product =
     JObj [(''sync_product'', JObj
              [(''id'', JNum (Finite 301)), (''name'', JStr ''Dad hat''),
               (''thumbnail_url'', JStr ''hat.png'')]),
           (''sync_variants'', JArr [priced_variant])]"

section \<open>Checkout session creation in the file of handleCheckoutSessionCompleted\<close>

text \<open>
  The server file that defines \<open>handleCheckoutSessionCompleted\<close> builds its line items
  differently (the callback of \<open>cart.map\<close>, lines 151 to 165): the two identifiers go
  into the metadata of the product, not of the price, and as they are, without
  \<open>String\<close>.
\<close>

definition line_item_handover :: "jsval \<Rightarrow> js_error + jsval" where
  "line_item_handover item =
     and_then (get item ''name'') (\<lambda>name.
       Inr (JObj
         [(''price_data'', JObj
            [(''currency'', JStr ''usd''),
             (''product_data'', JObj
                [(''name'', name),
                 (''images'', JArr [own_prop item ''thumbnail_url'']),
                 (''metadata'', JObj
                    [(''variant_id'', own_prop item ''variant_id''),
                     (''product_id'', own_prop item ''id'')])]),
             (''unit_amount'', own_prop item ''price'')]),
          (''quantity'', own_prop item ''quantity'')]))"

text \<open>
  What the payment processor returns for such a line item inside a session retrieved
  with \<open>line_items.data.price.product\<close> expanded: the price holds the product, and the
  product the metadata given at creation.
\<close>

definition as_retrieved :: "jsval \<Rightarrow> jsval" where
  "as_retrieved li =
     (let price_data = own_prop li ''price_data'';
          product_data = own_prop price_data ''product_data''
      in JObj [(''price'', JObj
                  [(''unit_amount'', own_prop price_data ''unit_amount''),
                   (''product'', JObj
                      [(''name'', own_prop product_data ''name''),
                       (''metadata'', own_prop product_data ''metadata'')])]),
               (''quantity'', own_prop li ''quantity'')])"

text \<open>The order line a cart item stands for in that file.\<close>

definition expected_sync_line :: "jsval \<Rightarrow> jsval" where
  "expected_sync_line item =
     JObj [(''sync_variant_id'', own_prop item ''variant_id''),
           (''quantity'', own_prop item ''quantity'')]"

text \<open>
  A cart whose first item has a variant identifier that is not a number, and the line
  items the checkout handler of server.js builds for it.
\<close>

definition coded_cart :: "jsval list" where
  "coded_cart =
     [JObj [(''id'', JNum (Finite 301)), (''name'', JStr ''Dad hat''),
            (''price'', JNum (Finite 1999)), (''thumbnail_url'', JStr ''hat.png''),
            (''variant_id'', JStr ''A-12''), (''quantity'', JNum (Finite 2))],
      JObj [(''id'', JNum (Finite 302)), (''name'', JStr ''Beanie''),
            (''price'', JNum (Finite 2500)), (''thumbnail_url'', JStr ''beanie.png''),
            (''variant_id'', JNum (Finite 4012345679)), (''quantity'', JNum (Finite 1))]]"

definition coded_line_items :: "jsval list" where
  "coded_line_items =
     [JObj
        [(''price_data'', JObj
           [(''currency'', JStr ''usd''),
            (''product_data'', JObj
               [(''name'', JStr ''Dad hat''), (''images'', JArr [JStr ''hat.png''])]),
            (''unit_amount'', JNum (Finite 1999)),
            (''metadata'', JObj
               [(''variant_id'', JStr ''A-12''), (''product_id'', JStr ''301'')])]),
         (''quantity'', JNum (Finite 2))],
      JObj
        [(''price_data'', JObj
           [(''currency'', JStr ''usd''),
            (''product_data'', JObj
               [(''name'', JStr ''Beanie''), (''images'', JArr [JStr ''beanie.png''])]),
            (''unit_amount'', JNum (Finite 2500)),
            (''metadata'', JObj
               [(''variant_id'', JStr ''4012345679''), (''product_id'', JStr ''302'')])]),
         (''quantity'', JNum (Finite 1))]]"

text \<open>
  A cart whose second item has its variant identifier and no \<open>id\<close>, and the line items
  the other checkout handler builds for it.
\<close>

definition unlisted_cart :: "jsval list" where
  "unlisted_cart =
     [JObj [(''id'', JNum (Finite 301)), (''name'', JStr ''Dad hat''),
            (''price'', JNum (Finite 1999)), (''thumbnail_url'', JStr ''hat.png''),
            (''variant_id'', JNum (Finite 4012345678)), (''quantity'', JNum (Finite 2))],
      JObj [(''name'', JStr ''Beanie''),
            (''price'', JNum (Finite 2500)), (''thumbnail_url'', JStr ''beanie.png''),
            (''variant_id'', JNum (Finite 4012345679)), (''quantity'', JNum (Finite 1))]]"

definition unlisted_line_items :: "jsval list" where
  "unlisted_line_items =
     [JObj
        [(''price_data'', JObj
           [(''currency'', JStr ''usd''),
            (''product_data'', JObj
               [(''name'', JStr ''Dad hat''), (''images'', JArr [JStr ''hat.png'']),
                (''metadata'', JObj
                   [(''variant_id'', JNum (Finite 4012345678)),
                    (''product_id'', JNum (Finite 301))])]),
            (''unit_amount'', JNum (Finite 1999))]),
         (''quantity'', JNum (Finite 2))],
      JObj
        [(''price_data'', JObj
           [(''currency'', JStr ''usd''),
            (''product_data'', JObj
               [(''name'', JStr ''Beanie''), (''images'', JArr [JStr ''beanie.png'']),
                (''metadata'', JObj
                   [(''variant_id'', JNum (Finite 4012345679)),
                    (''product_id'', JUndefined)])]),
            (''unit_amount'', JNum (Finite 2500))]),
         (''quantity'', JNum (Finite 1))]]"

text \<open>The line items the same handler builds for the example cart.\<close>

definition example_line_items_handover :: "jsval list" where
  "example_line_items_handover =
     [JObj
        [(''price_data'', JObj
           [(''currency'', JStr ''usd''),
            (''product_data'', JObj
               [(''name'', JStr ''Dad hat''), (''images'', JArr [JStr ''hat.png'']),
                (''metadata'', JObj
                   [(''variant_id'', JNum (Finite 4012345678)),
                    (''product_id'', JNum (Finite 301))])]),
            (''unit_amount'', JNum (Finite 1999))]),
         (''quantity'', JNum (Finite 2))],
      JObj
        [(''price_data'', JObj
           [(''currency'', JStr ''usd''),
            (''product_data'', JObj
               [(''name'', JStr ''Beanie''), (''images'', JArr [JStr ''beanie.png'']),
                (''metadata'', JObj
                   [(''variant_id'', JNum (Finite 4012345679)),
                    (''product_id'', JNum (Finite 302))])]),
            (''unit_amount'', JNum (Finite 2500))]),
         (''quantity'', JNum (Finite 1))]]"

text \<open>A cart of 101 items, all the first item of the example cart, and its line items.\<close>

definition long_cart :: "jsval list" where
  "long_cart = replicate 101 (hd example_cart)"

definition long_line_items :: "jsval list" where
  "long_line_items = replicate 101 (hd example_line_items)"

section \<open>The request on its way to the webhook\<close>

text \<open>
  Before a handler runs, Express runs the body parsers registered ahead of its route and
  the route's own. The parsers are the framework's, not the repository's; they are
  modelled after their documentation, for a request they can read (within their size
  limit, in an encoding they accept). A parser acts on a request of the media type it is
  registered for whose body no parser has read yet: it reads the body and leaves the
  result in \<open>req.body\<close>. Every later parser leaves that request alone.

  A \<open>delivery\<close> is the request as it arrives: its headers, with the names in lower case
  as Node presents them, and the bytes of its body.
\<close>

record delivery =
  wire_headers :: "(string \<times> string) list"
  raw :: string

text \<open>
  The media type the parsers compare with their own: the content type without its
  parameters, in lower case.
\<close>

definition to_lower :: "char \<Rightarrow> char" where
  "to_lower c =
     (let n = of_char c :: nat in if 65 \<le> n \<and> n \<le> 90 then char_of (n + 32) else c)"

definition media_type :: "delivery \<Rightarrow> string" where
  "media_type d =
     (case map_of (wire_headers d) ''content-type'' of
        None \<Rightarrow> ''''
      | Some v \<Rightarrow> map to_lower (takeWhile (\<lambda>c. c \<noteq> CHR '';'' \<and> c \<noteq> CHR '' '') v))"

text \<open>
  What the parsers make of a text is a parameter: \<open>parse_json\<close> stands for
  \<open>JSON.parse\<close> as \<open>express.json()\<close> applies it (\<open>Inl\<close> the message of its error),
  \<open>parse_form\<close> for the query-string parser of \<open>express.urlencoded\<close>, which always
  gives an object.
\<close>

record parsers =
  parse_json :: "string \<Rightarrow> string + jsval"
  parse_form :: "string \<Rightarrow> (string \<times> jsval) list"

text \<open>
  The three parsers, each given what the parsers before it have read (\<open>None\<close> when none
  has read the body). \<open>express.json()\<close> is strict: it hands on objects and arrays
  only, and a body it refuses ends the request with status 400 before any route is
  reached. \<open>express.raw({ type: 'application/json' })\<close> is the last parser before the
  handler, so it gives what the handler finds in \<open>req.body\<close>: the bytes of the body, as
  a Buffer, when it reads the body itself (the payment library takes a Buffer and a
  string alike, and the model writes both \<open>JStr\<close>); what an earlier parser left;
  or the empty object the parsers put there for a request none of them reads.
\<close>

definition express_json :: "parsers \<Rightarrow> delivery \<Rightarrow> jsval option \<Rightarrow> string + jsval option" where
  "express_json ps d body_read =
     (case body_read of
        Some v \<Rightarrow> Inr (Some v)
      | None \<Rightarrow>
          if media_type d = ''application/json'' then
            (case parse_json ps (raw d) of
               Inl m \<Rightarrow> Inl m
             | Inr (JObj members) \<Rightarrow> Inr (Some (JObj members))
             | Inr (JArr items) \<Rightarrow> Inr (Some (JArr items))
             | Inr _ \<Rightarrow> Inl ''Unexpected token in JSON'')
          else Inr None)"

definition express_urlencoded :: "parsers \<Rightarrow> delivery \<Rightarrow> jsval option \<Rightarrow> jsval option" where
  "express_urlencoded ps d body_read =
     (case body_read of
        Some v \<Rightarrow> Some v
      | None \<Rightarrow>
          if media_type d = ''application/x-www-form-urlencoded''
          then Some (JObj (parse_form ps (raw d)))
          else None)"

definition express_raw :: "delivery \<Rightarrow> jsval option \<Rightarrow> jsval" where
  "express_raw d body_read =
     (case body_read of
        Some v \<Rightarrow> v
      | None \<Rightarrow> if media_type d = ''application/json'' then JStr (raw d) else JObj [])"

text \<open>The request a handler receives: the headers of the delivery, and the body the parsers left.\<close>

definition received :: "delivery \<Rightarrow> jsval \<Rightarrow> request" where
  "received d b = \<lparr>headers = wire_headers d, body = b\<rparr>"

text \<open>
  \<open>POST /webhook\<close> in server.js (and in its copy) and in the file of
  \<open>handleCheckoutSessionCompleted\<close>: \<open>cors()\<close>, which leaves the request as it is,
  then the route with its raw parser. Both files register \<open>express.json()\<close> after the
  route, and say so in a comment.
\<close>

definition post_webhook :: "env \<Rightarrow> delivery \<Rightarrow> outcome" where
  "post_webhook env d = webhook env (received d (express_raw d None))"

definition post_webhook_handover :: "env \<Rightarrow> delivery \<Rightarrow> outcome" where
  "post_webhook_handover env d = webhook_handover env (received d (express_raw d None))"

text \<open>
  \<open>POST /webhook\<close> in the third server file: \<open>express.json()\<close> and
  \<open>express.urlencoded({ extended: true })\<close> are registered at lines 20 and 21, ahead of
  the route at line 37, whose comment reads \<open>Must be defined before body parsing
  middleware\<close>.
\<close>

definition post_webhook_undefined :: "parsers \<Rightarrow> env \<Rightarrow> delivery \<Rightarrow> outcome" where
  "post_webhook_undefined ps env d =
     (case express_json ps d None of
        Inl m \<Rightarrow>
          \<lparr>sent = Some \<lparr>status = 400, payload = ParserError m\<rparr>, calls = [], logged = []\<rparr>
      | Inr body_read \<Rightarrow>
          webhook_undefined env
            (received d (express_raw d (express_urlencoded ps d body_read))))"

text \<open>
  What the payment library makes of the delivery itself: of the bytes of its body, its
  signature header and the configured secret. This is the check the claims speak of.
\<close>

definition signature_check :: "env \<Rightarrow> delivery \<Rightarrow> string + jsval" where
  "signature_check env d =
     constructEvent env (JStr (raw d)) (header (received d JUndefined) ''stripe-signature'')
       (endpointSecret env)"

text \<open>
  The library computes the signature over the bytes of the body, so it constructs an
  event from nothing else: given a parsed body it throws. That is a fact about the
  library, and a hypothesis wherever it is used; \<open>is_raw\<close> tells the bytes from a parsed
  body.
\<close>

fun is_raw :: "jsval \<Rightarrow> bool" where
  "is_raw (JStr bytes) = True"
| "is_raw _ = False"

text \<open>The answer of the webhook's \<open>catch\<close> to a failed verification, with nothing else done.\<close>

definition rejected :: "string \<Rightarrow> outcome" where
  "rejected m =
     \<lparr>sent = Some \<lparr>status = 400, payload = WebhookError (SignatureError m)\<rparr>,
      calls = [], logged = [SignatureError m]\<rparr>"

text \<open>
  A stand-in for the payment library that checks the bytes too: the header \<open>valid\<close>
  verifies for the given bytes under the configured secret, and for nothing else.
\<close>

definition signing_env :: "string \<Rightarrow> jsval \<Rightarrow> (nat \<Rightarrow> string + jsval) \<Rightarrow> env" where
  "signing_env bytes event listing =
     (stub_env event listing)
       \<lparr>constructEvent := (\<lambda>payload sig secret.
          if payload = JStr bytes \<and> sig = JStr ''valid'' \<and> secret = JStr ''whsec_test''
          then Inr event
          else Inl ''No signatures found matching the expected signature for payload'')\<rparr>"

text \<open>
  The bytes of an event for the example session, as the processor sends them, a delivery
  of them with the signature that verifies, one with another signature, and one whose
  body was altered on the way.
\<close>

definition event_text :: string where
  "event_text =
     ''{\"id\":\"evt_1\",\"type\":\"checkout.session.completed\",\"data\":{\"object\":{\"id\":\"cs_test_1\",\"customer_email\":\"pat@example.com\",\"customer_details\":{\"name\":\"Pat Doe\",\"phone\":\"555-0100\",\"address\":{\"line1\":\"1 Main St\",\"line2\":null,\"city\":\"Springfield\",\"state\":\"IL\",\"country\":\"US\",\"postal_code\":\"62701\"}}}}}''"

definition signed_delivery :: delivery where
  "signed_delivery =
     \<lparr>wire_headers = [(''content-type'', ''application/json; charset=utf-8''),
                      (''stripe-signature'', ''valid'')],
      raw = event_text\<rparr>"

definition forged_delivery :: delivery where
  "forged_delivery =
     \<lparr>wire_headers = [(''content-type'', ''application/json; charset=utf-8''),
                      (''stripe-signature'', ''forged'')],
      raw = event_text\<rparr>"

definition altered_delivery :: delivery where
  "altered_delivery =
     \<lparr>wire_headers = [(''content-type'', ''application/json; charset=utf-8''),
                      (''stripe-signature'', ''valid'')],
      raw = event_text @ '' ''\<rparr>"

definition example_parsers :: parsers where
  "example_parsers =
     \<lparr>parse_json = (\<lambda>bytes.
        if bytes = event_text \<or> bytes = event_text @ '' ''
        then Inr (completed_event example_session)
        else Inl ''Unexpected token in JSON''),
      parse_form = (\<lambda>bytes. [])\<rparr>"

text \<open>The environment of the examples: the library as above, the two services as in \<open>stub_env\<close>.\<close>

definition example_env :: env where
  "example_env =
     signing_env event_text (completed_event example_session)
       (\<lambda>n. Inr (first_page n (map as_listed example_line_items)))"

section \<open>Facts about the number model\<close>

lemma quotient_pos:
  assumes "0 < x" "quotient_of x = (p, q)"
  shows "0 < p" "0 < q" "x = of_int p / of_int q"
proof -
  show q: "0 < q" using assms(2) quotient_of_denom_pos by blast
  show x: "x = of_int p / of_int q" using assms(2) quotient_of_div by blast
  show "0 < p" using assms(1) q x
    by (simp add: zero_less_divide_iff)
qed

lemma bitlen_powi:
  assumes "0 < (p::int)"
  shows "(2::rat) powi (bitlen p - 1) \<le> of_int p" "of_int p < (2::rat) powi (bitlen p)"
proof -
  have b: "2 ^ nat (bitlen p - 1) \<le> p" "p < 2 ^ nat (bitlen p)"
    using bitlen_bounds [OF assms] by auto
  have ge: "1 \<le> bitlen p" using assms by (simp add: bitlen_alt_def)
  have "(of_int (2 ^ nat (bitlen p - 1)) :: rat) \<le> of_int p"
    using b(1) of_int_le_iff by blast
  then show "(2::rat) powi (bitlen p - 1) \<le> of_int p"
    using ge by (simp add: power_int_def)
  have "(of_int p :: rat) < of_int (2 ^ nat (bitlen p))"
    using b(2) of_int_less_iff by blast
  then show "of_int p < (2::rat) powi (bitlen p)"
    using ge by (simp add: power_int_def)
qed

lemma ilog2_lower:
  assumes "0 < x"
  shows "2 powi (ilog2 x) \<le> x"
proof -
  obtain p q where pq: "quotient_of x = (p, q)" by (cases "quotient_of x")
  note f = quotient_pos [OF assms pq]
  let ?d = "bitlen p - bitlen q"
  have "(2::rat) powi (?d - 1) = 2 powi (bitlen p - 1) / 2 powi (bitlen q)"
    by (metis (no_types, opaque_lifting) diff_diff_eq2 diff_add_eq_diff_diff_swap
        power_int_diff zero_neq_numeral add.commute diff_diff_eq)
  also have "\<dots> \<le> of_int p / 2 powi (bitlen q)"
    using bitlen_powi(1) [OF f(1)] by (simp add: divide_right_mono)
  also have "\<dots> \<le> of_int p / of_int q"
    using bitlen_powi(2) [OF f(2)] f(1) f(2) by (simp add: frac_le)
  finally have low: "(2::rat) powi (?d - 1) \<le> x" using f(3) by simp
  show ?thesis
    using low by (simp add: ilog2_def pq Let_def)
qed

lemma ilog2_upper:
  assumes "0 < x"
  shows "x < 2 powi (ilog2 x + 1)"
proof -
  obtain p q where pq: "quotient_of x = (p, q)" by (cases "quotient_of x")
  note f = quotient_pos [OF assms pq]
  let ?d = "bitlen p - bitlen q"
  have pos: "(0::rat) < 2 powi (bitlen q - 1)" by simp
  have "x = of_int p / of_int q" by (rule f(3))
  also have "\<dots> < 2 powi (bitlen p) / of_int q"
    using bitlen_powi(2) [OF f(1)] f(2) by (simp add: divide_strict_right_mono)
  also have "\<dots> \<le> 2 powi (bitlen p) / 2 powi (bitlen q - 1)"
    using bitlen_powi(1) [OF f(2)] pos by (simp add: frac_le)
  also have "\<dots> = 2 powi (?d + 1)"
    by (simp add: power_int_diff [symmetric] algebra_simps)
  finally have up: "x < 2 powi (?d + 1)" .
  show ?thesis
    using up by (simp add: ilog2_def pq Let_def)
qed


text \<open>
  The overflow test of \<open>fl\<close> by the exponent of the rounded value, for evaluation:
  it spares computing \<open>2 ^ 1024\<close>.
\<close>

lemma overflow_by_exponent:
  assumes "0 \<le> r"
  shows "(2 ^ 1024 \<le> r) = (r \<noteq> 0 \<and> 1024 \<le> ilog2 r)"
proof (cases "r = 0")
  case True
  then show ?thesis by simp
next
  case False
  then have pos: "0 < r" using assms by simp
  show ?thesis
  proof
    assume "2 ^ 1024 \<le> r"
    then have lt: "(2::rat) powi 1024 < 2 powi (ilog2 r + 1)"
      using ilog2_upper [OF pos] by simp
    have "1024 < ilog2 r + 1"
    proof (rule ccontr)
      assume "\<not> 1024 < ilog2 r + 1"
      then have "(2::rat) powi (ilog2 r + 1) \<le> 2 powi 1024"
        by (intro power_int_increasing) simp_all
      then show False using lt by simp
    qed
    then show "r \<noteq> 0 \<and> 1024 \<le> ilog2 r" using False by simp
  next
    assume "r \<noteq> 0 \<and> 1024 \<le> ilog2 r"
    then have "(2::rat) powi 1024 \<le> 2 powi (ilog2 r)"
      by (intro power_int_increasing) simp_all
    then show "2 ^ 1024 \<le> r" using ilog2_lower [OF pos] by simp
  qed
qed

lemma round_half_even_nonneg: "0 \<le> x \<Longrightarrow> 0 \<le> round_half_even x"
  by (auto simp: round_half_even_def Let_def)

lemma fl_code [code]:
  "fl x = (if x = 0 then Finite 0 else
     (let a = \<bar>x\<bar>; q = max (ilog2 a) (- 1022) - 52;
          r = of_int (round_half_even (a / 2 powi q)) * 2 powi q
      in if r \<noteq> 0 \<and> 1024 \<le> ilog2 r then (if 0 < x then PosInf else NegInf)
         else Finite (if 0 < x then r else - r)))"
proof -
  have "0 \<le> of_int (round_half_even (\<bar>x\<bar> / 2 powi q)) * (2::rat) powi q" for q
    by (intro mult_nonneg_nonneg) (simp_all add: round_half_even_nonneg)
  then show ?thesis
    unfolding fl_def Let_def by (simp only: overflow_by_exponent)
qed

lemma round_half_even_of_int: "round_half_even (of_int n) = n"
  by (simp add: round_half_even_def)

lemma ilog2_range:
  assumes "1 \<le> a" "a < 2 ^ 53"
  shows "0 \<le> ilog2 a" "ilog2 a \<le> 52"
proof -
  have pos: "0 < a" using assms(1) by simp
  show "0 \<le> ilog2 a"
  proof (rule ccontr)
    assume "\<not> 0 \<le> ilog2 a"
    then have "ilog2 a + 1 \<le> 0" by simp
    then have "(2::rat) powi (ilog2 a + 1) \<le> 2 powi 0"
      by (intro power_int_increasing) simp_all
    then show False using ilog2_upper [OF pos] assms(1) by simp
  qed
  have "(2::rat) powi (ilog2 a) < 2 powi 53"
    using ilog2_lower [OF pos] assms(2) by simp
  then have "ilog2 a < 53"
    by (intro power_int_le_imp_less_exp [of "2::rat"]) simp_all
  then show "ilog2 a \<le> 52" by simp
qed

lemma fl_of_nat_int:
  assumes "0 < n" "n < 2 ^ 53"
  shows "max (ilog2 (of_int n)) (- 1022) - 52 \<le> 0"
    and "of_int (round_half_even (of_int n / 2 powi (max (ilog2 (of_int n)) (- 1022) - 52))) *
         2 powi (max (ilog2 (of_int n)) (- 1022) - 52) = (of_int n :: rat)"
proof -
  let ?a = "of_int n :: rat"
  let ?q = "max (ilog2 ?a) (- 1022) - 52"
  have a: "1 \<le> ?a" "?a < 2 ^ 53" using assms by (simp_all add: of_int_less_numeral_power_cancel_iff)
  note e = ilog2_range [OF a]
  have q: "?q = ilog2 ?a - 52" using e by simp
  show "?q \<le> 0" using e q by simp
  define k where "k = nat (52 - ilog2 ?a)"
  have qk: "?q = - int k" using e q by (simp add: k_def)
  have "?a / 2 powi ?q = of_int (n * 2 ^ k)"
    by (simp add: qk power_int_minus field_simps)
  then have "round_half_even (?a / 2 powi ?q) = n * 2 ^ k"
    by (simp only: round_half_even_of_int)
  then show "of_int (round_half_even (?a / 2 powi ?q)) * 2 powi ?q = ?a"
    by (simp add: qk power_int_minus field_simps)
qed

lemma fl_of_int:
  assumes "\<bar>v\<bar> < 2 ^ 53"
  shows "fl (of_int v) = Finite (of_int v)"
proof (cases "v = 0")
  case True
  then show ?thesis by (simp add: fl_def)
next
  case False
  let ?n = "\<bar>v\<bar>"
  have n: "0 < ?n" "?n < 2 ^ 53" using False assms by simp_all
  have abs: "\<bar>of_int v :: rat\<bar> = of_int ?n" by simp
  have r: "of_int (round_half_even (of_int ?n / 2 powi (max (ilog2 (of_int ?n)) (- 1022) - 52))) *
         2 powi (max (ilog2 (of_int ?n)) (- 1022) - 52) = (of_int ?n :: rat)"
    by (rule fl_of_nat_int(2) [OF n])
  have small: "\<not> (2::rat) ^ 1024 \<le> of_int ?n"
  proof -
    have "(of_int ?n :: rat) < 2 ^ 53" using n(2) by (simp add: of_int_less_numeral_power_cancel_iff)
    also have "(2::rat) ^ 53 \<le> 2 ^ 1024" by (intro power_increasing) simp_all
    finally show ?thesis by simp
  qed
  show ?thesis
    unfolding fl_def Let_def abs r
    using False small by (auto simp: abs_if)
qed


lemma char_zero: "CHR ''0'' = char_of (48::int)"
proof -
  have "(of_char (char_of (48::int)) :: int) = of_char (CHR ''0'')"
    by (simp only: of_char_of) simp
  then show ?thesis by (simp only: of_char_eq_iff)
qed

lemma digit_char:
  assumes "0 \<le> d" "d < 10"
  shows "is_digit (char_of (48 + d))" "digit_val (char_of (48 + d)) = d"
proof -
  have m: "(48 + d) mod 256 = 48 + d" using assms by simp
  have oc: "(of_char (char_of (48 + d)) :: int) = 48 + d"
    by (simp only: of_char_of m)
  show "is_digit (char_of (48 + d))" unfolding is_digit_def oc using assms by simp
  show "digit_val (char_of (48 + d)) = d" unfolding digit_val_def oc by simp
qed

lemma digits_val_snoc: "digits_val (ds @ [c]) = 10 * digits_val ds + digit_val c"
  by (simp add: digits_val_def)

lemma dec_digits_props:
  "0 \<le> n \<Longrightarrow> (\<forall>c\<in>set (dec_digits n). is_digit c) \<and> digits_val (dec_digits n) = n \<and>
     dec_digits n \<noteq> []"
proof (induction n rule: dec_digits.induct)
  case (1 n)
  show ?case
  proof (cases "n < 10")
    case True
    then show ?thesis
      using "1.prems" digit_char [of n]
      by (simp add: dec_digits.simps [of n] digits_val_def)
  next
    case False
    then have ih: "\<forall>c\<in>set (dec_digits (n div 10)). is_digit c"
      "digits_val (dec_digits (n div 10)) = n div 10"
      using "1.IH" "1.prems" by simp_all
    have d: "0 \<le> n mod 10" "n mod 10 < 10" by simp_all
    show ?thesis
      using False ih digit_char [OF d]
      by (simp add: dec_digits.simps [of n] digits_val_snoc)
  qed
qed

lemma takeWhile_all: "\<forall>x\<in>set xs. P x \<Longrightarrow> takeWhile P xs = xs"
  by (induction xs) simp_all

lemma is_digit_not_sign:
  assumes "is_digit c"
  shows "\<not> is_space c" "c \<noteq> CHR ''-''" "c \<noteq> CHR ''+''"
proof -
  show "\<not> is_space c" using assms by (auto simp: is_digit_def is_space_def)
  show "c \<noteq> CHR ''-''" using assms by (auto simp: is_digit_def)
  show "c \<noteq> CHR ''+''" using assms by (auto simp: is_digit_def)
qed

lemma parseInt10_digits:
  assumes "\<forall>c\<in>set ds. is_digit c" "ds \<noteq> []"
  shows "parseInt10 (JStr ds) = fl (of_int (digits_val ds))"
    and "parseInt10 (JStr (CHR ''-'' # ds)) = fl (of_int (- digits_val ds))"
proof -
  obtain c cs where cs: "ds = c # cs" using assms(2) by (cases ds) auto
  have c: "is_digit c" using assms(1) cs by simp
  have tw: "takeWhile is_digit ds = ds" by (rule takeWhile_all [OF assms(1)])
  have t1: "trim_start ds = ds"
    using is_digit_not_sign [OF c] by (simp add: trim_start_def cs)
  have s1: "take_sign ds = (False, ds)"
    using is_digit_not_sign [OF c] by (simp add: cs)
  show "parseInt10 (JStr ds) = fl (of_int (digits_val ds))"
    unfolding parseInt10_def js_String.simps t1 s1 prod.case Let_def tw
    using assms(2) by simp
  have t2: "trim_start (CHR ''-'' # ds) = CHR ''-'' # ds"
    by (simp add: trim_start_def is_space_def)
  have s2: "take_sign (CHR ''-'' # ds) = (True, ds)" by simp
  show "parseInt10 (JStr (CHR ''-'' # ds)) = fl (of_int (- digits_val ds))"
    unfolding parseInt10_def js_String.simps t2 s2 prod.case Let_def tw
    using assms(2) by simp
qed

lemma Number_toString_int:
  assumes "\<bar>v\<bar> < 2 ^ 53"
  shows "Number_toString (Finite (of_int v)) =
           (if v < 0 then CHR ''-'' # dec_digits (- v) else dec_digits v)"
proof -
  have pos: "positive_toString (of_int n) = dec_digits n" if "n < 2 ^ 53" for n
  proof -
    have "(of_int n :: rat) < 2 ^ 53" using that by (simp add: of_int_less_numeral_power_cancel_iff)
    then show ?thesis by (simp add: positive_toString_def)
  qed
  show ?thesis
  proof (cases "v = 0")
    case True
    then show ?thesis by (simp add: dec_digits.simps [of 0] char_zero)
  next
    case False
    then show ?thesis
      using assms pos [of v] pos [of "- v"] by (auto simp: abs_if split: if_splits)
  qed
qed

lemma parseInt10_String_int:
  assumes "\<bar>v\<bar> < 2 ^ 53"
  shows "parseInt10 (JStr (js_String (JNum (Finite (of_int v))))) = Finite (of_int v)"
proof (cases "v < 0")
  case True
  then have n: "0 \<le> - v" by simp
  note p = dec_digits_props [OF n]
  have s: "js_String (JNum (Finite (of_int v))) = CHR ''-'' # dec_digits (- v)"
    using True Number_toString_int [OF assms] by simp
  have "parseInt10 (JStr (CHR ''-'' # dec_digits (- v))) = fl (of_int (- digits_val (dec_digits (- v))))"
    using p by (intro parseInt10_digits(2)) simp_all
  then show ?thesis using s p fl_of_int [OF assms] by simp
next
  case False
  then have n: "0 \<le> v" by simp
  note p = dec_digits_props [OF n]
  have s: "js_String (JNum (Finite (of_int v))) = dec_digits v"
    using False Number_toString_int [OF assms] by simp
  have "parseInt10 (JStr (dec_digits v)) = fl (of_int (digits_val (dec_digits v)))"
    using p by (intro parseInt10_digits(1)) simp_all
  then show ?thesis using s p fl_of_int [OF assms] by simp
qed

section \<open>Facts about the handlers\<close>

lemma and_then_simps [simp]:
  "and_then (Inl e) f = Inl e" "and_then (Inr v) f = f v"
  by (simp_all add: and_then_def)

lemma get_Inl: "get v k = Inl e \<Longrightarrow> e = TypeError"
  by (simp add: get_def split: if_splits)

lemma get_Inr: "get v k = Inr x \<Longrightarrow> \<not> nullish v \<and> x = own_prop v k"
  by (auto simp: get_def split: if_splits)

lemma map_result_Inl:
  assumes "\<And>x e. f x = Inl e \<Longrightarrow> P e"
  shows "map_result f xs = Inl e \<Longrightarrow> P e"
  using assms
  by (induction xs arbitrary: e) (auto simp: and_then_def split: sum.splits)

lemma js_map_Inl:
  assumes "\<And>x e. f x = Inl e \<Longrightarrow> e = TypeError"
  shows "js_map f v = Inl e \<Longrightarrow> e = TypeError"
  using map_result_Inl [of f "\<lambda>e. e = TypeError"] assms
  by (cases v) auto

lemma printful_item_Inl: "printful_item item = Inl e \<Longrightarrow> e = TypeError"
  by (auto simp: printful_item_def and_then_def dest: get_Inl split: sum.splits)

lemma recipient_of_Inl: "recipient_of session = Inl e \<Longrightarrow> e = TypeError"
  by (auto simp: recipient_of_def and_then_def dest: get_Inl split: sum.splits)

lemma js_map_printful_item_Inl: "js_map printful_item v = Inl e \<Longrightarrow> e = TypeError"
  using js_map_Inl [of printful_item v e] printful_item_Inl by blast

lemma on_completed_errors:
  "on_completed env session = (Some e, cs, ls) \<Longrightarrow> e = TypeError \<or> (\<exists>m. e = ApiError m)"
  by (auto simp: on_completed_def submit_order_def and_then_def
      dest: get_Inl recipient_of_Inl js_map_printful_item_Inl
      split: sum.splits)

lemma on_event_errors:
  "on_event env ev = (Some e, cs, ls) \<Longrightarrow> e = TypeError \<or> (\<exists>m. e = ApiError m)"
  by (auto simp: on_event_def and_then_def
      dest: get_Inl on_completed_errors
      split: sum.splits if_splits)

lemma finish_sent_400:
  "sent (finish r) = Some \<lparr>status = 400, payload = WebhookError e\<rparr> \<Longrightarrow> fst r = Some e"
  by (cases r) (auto simp: finish_def split: option.splits)

lemma on_event_handover_errors:
  "on_event_handover env ev = (Some e, cs, ls) \<Longrightarrow> e = TypeError"
  by (auto simp: on_event_handover_def and_then_def dest: get_Inl
      split: sum.splits if_splits prod.splits)

lemma verify_stub:
  "verify (stub_env event listing) signed_request = Inr event"
  "verify (stub_env event listing) forged_request =
     Inl ''No signatures found matching the expected signature for payload''"
  by (simp_all add: verify_def stub_env_def signed_request_def forged_request_def header_def)

lemma get_completed_event:
  "get (completed_event session) ''type'' = Inr (JStr ''checkout.session.completed'')"
  "and_then (get (completed_event session) ''data'') (\<lambda>d. get d ''object'') = Inr session"
  by (simp_all add: completed_event_def get_def)

lemma stub_env_calls:
  "listLineItems (stub_env event listing) sid n = listing n"
  "retrieveSession (stub_env event listing) sid =
     (case listing 100 of
        Inl msg \<Rightarrow> Inl msg
      | Inr page \<Rightarrow> Inr (JObj [(''id'', sid), (''line_items'', page)]))"
  "createSession (stub_env event listing) params = Inr (JObj [(''id'', JStr ''cs_test_1'')])"
  "printfulCreateOrder (stub_env event listing) order =
     Inr (JObj [(''data'', JObj [(''code'', JNum (Finite 200))])])"
  "frontendUrl (stub_env event listing) = JStr ''https://shop.example''"
  by (simp_all add: stub_env_def)

lemma example_session_id: "get example_session ''id'' = Inr (JStr ''cs_test_1'')"
  by (simp add: get_def example_session_def)

lemma map_result_Inr_iff:
  "map_result f xs = Inr ys \<longleftrightarrow> list_all2 (\<lambda>x y. f x = Inr y) xs ys"
proof (induction xs arbitrary: ys)
  case Nil
  then show ?case by auto
next
  case (Cons x xs)
  show ?case
  proof (cases "f x")
    case (Inl e)
    then show ?thesis by (auto simp: list_all2_Cons1)
  next
    case (Inr y)
    then show ?thesis
      using Cons.IH by (cases "map_result f xs") (auto simp: list_all2_Cons1)
  qed
qed

lemma map_result_map:
  "(\<forall>x\<in>set xs. f x = Inr (g x)) \<Longrightarrow> map_result f xs = Inr (map g xs)"
  by (induction xs) simp_all

lemma get_present: "\<not> nullish v \<Longrightarrow> get v k = Inr (own_prop v k)"
  by (simp add: get_def)

lemma safe_integer_round_trip:
  assumes "is_safe_integer v"
  shows "JNum (parseInt10 (JStr (js_String v))) = v"
proof -
  obtain x where v: "v = JNum (Finite x)" and x: "x = of_int \<lfloor>x\<rfloor>" "\<bar>x\<bar> < 2 ^ 53"
    using assms by (cases v rule: is_safe_integer.cases) auto
  have "\<bar>of_int \<lfloor>x\<rfloor> :: rat\<bar> < 2 ^ 53" using x by simp
  then have "\<bar>\<lfloor>x\<rfloor>\<bar> < 2 ^ 53"
    by (metis of_int_abs of_int_less_numeral_power_cancel_iff)
  then have "parseInt10 (JStr (js_String (JNum (Finite (of_int \<lfloor>x\<rfloor>))))) = Finite (of_int \<lfloor>x\<rfloor>)"
    by (rule parseInt10_String_int)
  then show ?thesis using v x(1) by simp
qed

lemma translate_created_item:
  assumes "\<not> nullish item" "is_safe_integer (own_prop item ''variant_id'')"
    and "line_item item = Inr li"
  shows "printful_item (as_listed li) = Inr (expected_order_line item)"
proof -
  have li: "li = JObj
         [(''price_data'', JObj
            [(''currency'', JStr ''usd''),
             (''product_data'', JObj
                [(''name'', own_prop item ''name''),
                 (''images'', JArr [own_prop item ''thumbnail_url''])]),
             (''unit_amount'', own_prop item ''price''),
             (''metadata'', JObj
                [(''variant_id'', JStr (js_String (own_prop item ''variant_id''))),
                 (''product_id'', JStr (js_String (own_prop item ''id'')))])]),
          (''quantity'', own_prop item ''quantity'')]"
    using assms(1,3) by (simp add: line_item_def get_present)
  show ?thesis
    unfolding li
    by (simp add: as_listed_def printful_item_def get_def expected_order_line_def
        safe_integer_round_trip [OF assms(2)])
qed

lemma translate_created_items:
  assumes "list_all2 (\<lambda>item li. line_item item = Inr li) cart lineItems"
    and "\<forall>item\<in>set cart. \<not> nullish item \<and> is_safe_integer (own_prop item ''variant_id'')"
  shows "map_result printful_item (map as_listed lineItems) = Inr (map expected_order_line cart)"
  using assms
proof (induction cart lineItems rule: list_all2_induct)
  case Nil
  then show ?case by simp
next
  case (Cons item cart li lineItems)
  have "printful_item (as_listed li) = Inr (expected_order_line item)"
    using Cons.hyps(1) Cons.prems by (intro translate_created_item) simp_all
  then show ?case using Cons by simp
qed

lemma line_item_total:
  assumes "\<not> nullish item"
  shows "\<exists>li. line_item item = Inr li"
  using assms by (simp add: line_item_def get_present)

lemma example_cart_created: "js_map line_item (JArr example_cart) = Inr example_line_items"
  unfolding example_cart_def example_line_items_def by code_simp

lemma example_cart_ids:
  "\<forall>item\<in>set example_cart. \<not> nullish item \<and> is_safe_integer (own_prop item ''variant_id'')"
  by (simp add: example_cart_def)

lemma example_recipient:
  "recipient_of example_session =
     Inr (JObj
         [(''name'', JStr ''Pat Doe''),
          (''address1'', JStr ''1 Main St''),
          (''address2'', JStr ''''),
          (''city'', JStr ''Springfield''),
          (''state_code'', JStr ''IL''),
          (''country_code'', JStr ''US''),
          (''zip'', JStr ''62701'')])"
  by (simp add: recipient_of_def example_session_def get_def js_or_def)

lemma line_item_passes_through:
  assumes "line_item item = Inr li"
  shows "own_prop (own_prop li ''price_data'') ''unit_amount'' = own_prop item ''price''"
    and "own_prop li ''quantity'' = own_prop item ''quantity''"
  using assms
  by (auto simp: line_item_def and_then_def split: sum.splits)

lemma line_items_pass_through:
  assumes "list_all2 (\<lambda>item li. line_item item = Inr li) cart lineItems"
  shows "map (\<lambda>li. (own_prop (own_prop li ''price_data'') ''unit_amount'', own_prop li ''quantity''))
           lineItems =
         map (\<lambda>item. (own_prop item ''price'', own_prop item ''quantity'')) cart"
    and "session_total lineItems = cart_total cart"
  using assms
  by (induction cart lineItems rule: list_all2_induct)
     (simp_all add: session_total_def cart_total_def line_item_passes_through)

lemma map_result_replicate:
  "f x = Inr y \<Longrightarrow> map_result f (replicate n x) = Inr (replicate n y)"
  by (induction n) simp_all

lemma find_preview_in_lacking:
  assumes "list_all (\<lambda>file. own_prop file ''type'' \<noteq> JStr ''preview'') files"
    and "find_preview_in files = Inr file"
  shows "file = JUndefined"
  using assms by (induction files) (auto simp: get_def split: if_splits)

lemma variant_detail_lacking:
  assumes "variant_detail variant = Inr vd" "lacks_preview variant"
  shows "own_prop vd ''thumbnail_url'' = JNull"
proof (cases "own_prop variant ''files''")
  case (JArr files)
  then have l: "list_all (\<lambda>file. own_prop file ''type'' \<noteq> JStr ''preview'') files"
    using assms(2) by (simp add: lacks_preview_def)
  show ?thesis
    using assms(1) JArr find_preview_in_lacking [OF l]
    by (auto simp: variant_detail_def and_then_def Let_def opt_get_def js_or_def
        split: sum.splits if_splits)
qed (use assms in \<open>auto simp: variant_detail_def and_then_def Let_def js_or_def lacks_preview_def
        split: sum.splits if_splits\<close>)

lemma preview_url_lacking:
  assumes "lacks_preview variant"
    and "(if nullish variant then Inr JUndefined
          else and_then (find_preview (own_prop variant ''files''))
                 (\<lambda>file. Inr (opt_get file ''preview_url''))) = Inr preview_url"
  shows "preview_url = JUndefined"
proof (cases "nullish variant")
  case True
  then show ?thesis using assms(2) by simp
next
  case False
  show ?thesis
  proof (cases "own_prop variant ''files''")
    case (JArr files)
    then have l: "list_all (\<lambda>file. own_prop file ''type'' \<noteq> JStr ''preview'') files"
      using assms(1) by (simp add: lacks_preview_def)
    show ?thesis
      using assms(2) False JArr find_preview_in_lacking [OF l]
      by (auto simp: and_then_def opt_get_def split: sum.splits)
  qed (use assms False in \<open>auto simp: lacks_preview_def\<close>)
qed

lemma product_summary_fields:
  assumes "product_summary product details = Inr entry"
  shows "own_prop entry ''name'' = js_or (own_prop product ''name'') (JStr ''No name available'')"
    and "lacks_preview (opt_first (own_prop details ''sync_variants'')) \<Longrightarrow>
         own_prop entry ''thumbnail_url'' =
           js_or (own_prop product ''thumbnail_url'') (JStr ''default_image_url'')"
proof -
  let ?sv = "own_prop details ''sync_variants''"
  obtain preview_url where
    p: "(if nullish (own_first ?sv) then Inr JUndefined
          else and_then (find_preview (own_prop (own_first ?sv) ''files''))
                 (\<lambda>file. Inr (opt_get file ''preview_url''))) = Inr preview_url"
    and sv: "\<not> nullish ?sv"
    and e: "entry = JObj
                [(''id'', own_prop product ''id''),
                 (''name'', js_or (own_prop product ''name'') (JStr ''No name available'')),
                 (''thumbnail_url'',
                    js_or (js_or preview_url (own_prop product ''thumbnail_url''))
                      (JStr ''default_image_url'')),
                 (''price'', (if truthy (opt_get (opt_first ?sv) ''retail_price'')
                              then to_cents (opt_get (opt_first ?sv) ''retail_price'')
                              else JNum (Finite 0))),
                 (''variant_id'', js_or (opt_get (opt_first ?sv) ''id'') JNull)]"
    using assms
    by (auto simp: product_summary_def get_def get_first_def and_then_def Let_def
        split: sum.splits if_splits)
  show "own_prop entry ''name'' = js_or (own_prop product ''name'') (JStr ''No name available'')"
    by (simp add: e)
  assume "lacks_preview (opt_first ?sv)"
  then have "lacks_preview (own_first ?sv)" using sv by (simp add: opt_first_def)
  then have "preview_url = JUndefined" using p by (rule preview_url_lacking)
  then show "own_prop entry ''thumbnail_url'' =
           js_or (own_prop product ''thumbnail_url'') (JStr ''default_image_url'')"
    by (simp add: e js_or_def)
qed

lemma product_details_fields:
  assumes "product_details product = Inr detail"
  shows "own_prop detail ''description'' =
           js_or (own_prop (own_prop product ''sync_product'') ''description'')
             (JStr ''No description available'')"
    and "own_prop detail ''name'' = own_prop (own_prop product ''sync_product'') ''name''"
    and "\<exists>variants. js_map variant_detail (own_prop product ''sync_variants'') = Inr variants \<and>
           own_prop detail ''variants'' = JArr variants"
  using assms
  by (auto simp: product_details_def get_def and_then_def split: sum.splits if_splits)

lemma plain_product_detail: "product_details plain_product = Inr plain_detail"
  unfolding plain_product_def plain_detail_def by code_simp

lemma plain_product_summary: "product_summary listed_product plain_product = Inr plain_entry"
  unfolding plain_product_def listed_product_def plain_entry_def by code_simp

lemma bare_variant_detail: "variant_detail bare_variant = Inr bare_variant_shown"
  unfolding bare_variant_def bare_variant_shown_def by code_simp

lemma catalog_env_calls:
  "printfulGetProduct catalog_env pid = Inr (JObj [(''data'', JObj [(''result'', plain_product)])])"
  by (simp add: catalog_env_def)

lemma catalog_list_example:
  "get_products catalog_env =
     \<lparr>sent = Some \<lparr>status = 200, payload = Json (JObj [(''products'', JArr [plain_entry])])\<rparr>,
      calls = [PrintfulListProducts, PrintfulGetProduct (JStr ''301'')], logged = []\<rparr>"
proof -
  have l: "printfulListProducts catalog_env =
      Inr (JObj [(''data'', JObj [(''result'', JArr [listed_product])])])"
    by (simp add: catalog_env_def)
  have i: "js_String (own_prop listed_product ''id'') = ''301''"
    unfolding listed_product_def by code_simp
  have n: "\<not> nullish listed_product" "get listed_product ''id'' = Inr (own_prop listed_product ''id'')"
    by (simp_all add: listed_product_def get_def)
  have p: "detailed_product catalog_env listed_product = Inr plain_entry"
    by (simp add: detailed_product_def n i catalog_env_calls plain_product_summary)
       (simp add: get_def plain_product_summary)
  show ?thesis
    by (simp add: get_products_def l Let_def p n i) (simp add: get_def p n i)
qed

lemma order_item_result:
  assumes "has_product_metadata item"
  shows "order_item item = Inr (if has_identifiers item then kept_line item else JNull)"
  using assms
  by (simp add: order_item_def has_product_metadata_def has_identifiers_def kept_line_def
      product_metadata_def get_def Let_def)

lemma kept_lines:
  "filter truthy (map (\<lambda>item. if has_identifiers item then kept_line item else JNull) items) =
     map kept_line (filter has_identifiers items)"
  by (induction items) (simp_all add: kept_line_def)

lemma js_map_order_item:
  assumes "\<forall>item\<in>set items. has_product_metadata item"
  shows "js_map order_item (JArr items) =
           Inr (map (\<lambda>item. if has_identifiers item then kept_line item else JNull) items)"
  using assms by (simp add: map_result_map order_item_result)

lemma printful_items_length:
  "js_map printful_item (JArr listed) = Inr orderLines \<Longrightarrow> length orderLines = length listed"
  by (simp add: map_result_Inr_iff list_all2_lengthD)

lemma first_page_data: "get (first_page n held) ''data'' = Inr (JArr (take n held))"
  by (simp add: first_page_def get_def)

lemma listed_pair_translated:
  "printful_item listed_with_id =
     Inr (JObj [(''variant_id'', JNum (Finite 4012345678)), (''quantity'', JNum (Finite 2))])"
  "printful_item listed_without_id =
     Inr (JObj [(''variant_id'', JNum NaN), (''quantity'', JNum (Finite 1))])"
  unfolding listed_with_id_def listed_without_id_def by code_simp+

lemma example_order_recipient:
  "order_recipient example_session =
     Inr (JObj
         [(''name'', JStr ''Pat Doe''),
          (''address1'', JStr ''1 Main St''),
          (''city'', JStr ''Springfield''),
          (''state_code'', JStr ''IL''),
          (''country_code'', JStr ''US''),
          (''zip'', JStr ''62701''),
          (''email'', JStr ''pat@example.com''),
          (''phone'', JStr ''555-0100'')])"
  by (simp add: order_recipient_def example_session_def get_def js_or_def)

lemma retrieved_examples:
  "has_product_metadata retrieved_with_id" "has_product_metadata retrieved_without_id"
  "has_identifiers retrieved_with_id" "\<not> has_identifiers retrieved_without_id"
  "kept_line retrieved_with_id =
     JObj [(''sync_variant_id'', JStr ''4012345678''), (''quantity'', JNum (Finite 2))]"
  by (simp_all add: has_product_metadata_def has_identifiers_def kept_line_def
      product_metadata_def retrieved_with_id_def retrieved_without_id_def)

lemma retrieved_created_item:
  assumes "\<not> nullish item" and "line_item_handover item = Inr li"
  shows "has_product_metadata (as_retrieved li)"
    and "has_identifiers (as_retrieved li) \<longleftrightarrow>
           truthy (own_prop item ''variant_id'') \<and> truthy (own_prop item ''id'')"
    and "kept_line (as_retrieved li) = expected_sync_line item"
proof -
  have li: "li = JObj
         [(''price_data'', JObj
            [(''currency'', JStr ''usd''),
             (''product_data'', JObj
                [(''name'', own_prop item ''name''),
                 (''images'', JArr [own_prop item ''thumbnail_url'']),
                 (''metadata'', JObj
                    [(''variant_id'', own_prop item ''variant_id''),
                     (''product_id'', own_prop item ''id'')])]),
             (''unit_amount'', own_prop item ''price'')]),
          (''quantity'', own_prop item ''quantity'')]"
    using assms by (simp add: line_item_handover_def get_present)
  show "has_product_metadata (as_retrieved li)"
    unfolding li by (simp add: as_retrieved_def has_product_metadata_def product_metadata_def)
  show "has_identifiers (as_retrieved li) \<longleftrightarrow>
           truthy (own_prop item ''variant_id'') \<and> truthy (own_prop item ''id'')"
    unfolding li by (simp add: as_retrieved_def has_identifiers_def product_metadata_def)
  show "kept_line (as_retrieved li) = expected_sync_line item"
    unfolding li
    by (simp add: as_retrieved_def kept_line_def product_metadata_def expected_sync_line_def)
qed

lemma retrieved_created_items:
  assumes "list_all2 (\<lambda>item li. line_item_handover item = Inr li) cart lineItems"
    and "\<forall>item\<in>set cart. \<not> nullish item \<and> truthy (own_prop item ''variant_id'') \<and>
           truthy (own_prop item ''id'')"
  shows "(\<forall>r\<in>set (map as_retrieved lineItems). has_product_metadata r) \<and>
         filter has_identifiers (map as_retrieved lineItems) = map as_retrieved lineItems \<and>
         map kept_line (map as_retrieved lineItems) = map expected_sync_line cart"
  using assms
proof (induction cart lineItems rule: list_all2_induct)
  case Nil
  show ?case by simp
next
  case (Cons item cart li lineItems)
  have item: "\<not> nullish item" "truthy (own_prop item ''variant_id'')"
    "truthy (own_prop item ''id'')"
    and rest: "\<forall>item\<in>set cart. \<not> nullish item \<and> truthy (own_prop item ''variant_id'') \<and>
           truthy (own_prop item ''id'')"
    using Cons.prems by simp_all
  note here = retrieved_created_item [OF item(1) Cons.hyps(1)]
  show ?case using here item Cons.IH [OF rest] by simp
qed

lemma handover_of_retrieved:
  assumes "get session ''id'' = Inr sid"
    and "retrieveSession env sid = Inr checkoutSession"
    and "and_then (get checkoutSession ''line_items'')
           (\<lambda>line_items. get line_items ''data'') = Inr (JArr items)"
    and "\<forall>item\<in>set items. has_product_metadata item"
  shows "handleCheckoutSessionCompleted env session =
     (let orderItems = map kept_line (filter has_identifiers items) in
      if orderItems = [] then
        ([RetrieveSession sid], [Error ''No valid items for Printful order.''])
      else if \<not> truthy (own_prop session ''customer_details'') then
        ([RetrieveSession sid], [Error ''Missing customer details in session.''])
      else
        (case order_recipient session of
           Inl e \<Rightarrow> ([RetrieveSession sid], [e])
         | Inr recipient \<Rightarrow>
             (case submit_order env
                     (JObj [(''recipient'', recipient), (''items'', JArr orderItems)])
                     [RetrieveSession sid] of
                (_, cs, ls) \<Rightarrow> (cs, ls))))"
proof -
  have mapped: "and_then (get checkoutSession ''line_items'') (\<lambda>line_items.
                   and_then (get line_items ''data'') (js_map order_item)) =
      Inr (map (\<lambda>item. if has_identifiers item then kept_line item else JNull) items)"
    using assms(3) js_map_order_item [OF assms(4)]
    by (auto simp: and_then_def split: sum.splits)
  show ?thesis
    by (simp add: handleCheckoutSessionCompleted_def assms(1,2) mapped kept_lines Let_def)
qed

lemma line_item_handover_total:
  assumes "\<not> nullish item"
  shows "\<exists>li. line_item_handover item = Inr li"
  using assms by (simp add: line_item_handover_def get_present)

lemma coded_cart_created: "js_map line_item (JArr coded_cart) = Inr coded_line_items"
  unfolding coded_cart_def coded_line_items_def by code_simp

lemma unlisted_cart_created:
  "js_map line_item_handover (JArr unlisted_cart) = Inr unlisted_line_items"
  unfolding unlisted_cart_def unlisted_line_items_def by code_simp

lemma example_cart_created_handover:
  "js_map line_item_handover (JArr example_cart) = Inr example_line_items_handover"
  unfolding example_cart_def example_line_items_handover_def by code_simp

lemma long_cart_created: "js_map line_item (JArr long_cart) = Inr long_line_items"
proof -
  have "line_item (hd example_cart) = Inr (hd example_line_items)"
    unfolding example_cart_def example_line_items_def by code_simp
  then show ?thesis
    by (simp add: long_cart_def long_line_items_def map_result_replicate)
qed

lemma coded_items_translated:
  "js_map printful_item (JArr (map as_listed coded_line_items)) =
     Inr [JObj [(''variant_id'', JNum NaN), (''quantity'', JNum (Finite 2))],
          JObj [(''variant_id'', JNum (Finite 4012345679)), (''quantity'', JNum (Finite 1))]]"
  unfolding coded_line_items_def by code_simp

lemma long_items_translated:
  "js_map printful_item (JArr (take 100 (map as_listed long_line_items))) =
     Inr (replicate 100
            (JObj [(''variant_id'', JNum (Finite 4012345678)), (''quantity'', JNum (Finite 2))]))"
proof -
  have "printful_item (as_listed (hd example_line_items)) =
      Inr (JObj [(''variant_id'', JNum (Finite 4012345678)), (''quantity'', JNum (Finite 2))])"
    unfolding example_line_items_def by code_simp
  then show ?thesis
    by (simp add: long_line_items_def map_result_replicate)
qed

lemma unlisted_items_retrieved:
  "\<forall>r\<in>set (map as_retrieved unlisted_line_items). has_product_metadata r"
  "map kept_line (filter has_identifiers (map as_retrieved unlisted_line_items)) =
     [JObj [(''sync_variant_id'', JNum (Finite 4012345678)), (''quantity'', JNum (Finite 2))]]"
  by (simp_all add: unlisted_line_items_def as_retrieved_def has_product_metadata_def
      has_identifiers_def kept_line_def product_metadata_def)

lemma stub_retrieved:
  "retrieveSession (stub_env ev (\<lambda>n. Inr (first_page n held))) sid =
     Inr (JObj [(''id'', sid), (''line_items'', first_page 100 held)])"
  "length held \<le> 100 \<Longrightarrow>
     and_then (get (JObj [(''id'', sid), (''line_items'', first_page 100 held)]) ''line_items'')
       (\<lambda>line_items. get line_items ''data'') = Inr (JArr held)"
  by (simp_all add: stub_env_calls get_def first_page_def)

lemma header_received:
  "header (received d b) k = header (received d JUndefined) k"
  by (simp add: header_def received_def)

lemma verify_received:
  "verify env (received d b) =
     constructEvent env b (header (received d JUndefined) ''stripe-signature'') (endpointSecret env)"
  by (simp add: verify_def received_def header_def)

lemma express_raw_alone:
  "media_type d = ''application/json'' \<Longrightarrow> express_raw d None = JStr (raw d)"
  "media_type d \<noteq> ''application/json'' \<Longrightarrow> express_raw d None = JObj []"
  by (simp_all add: express_raw_def)

lemma parsed_body_is_not_raw:
  assumes "express_json ps d None = Inr body_read"
  shows "\<not> is_raw (express_raw d (express_urlencoded ps d body_read))"
proof (cases "media_type d = ''application/json''")
  case True
  then obtain v where "body_read = Some v" "\<not> is_raw v"
    using assms
    by (auto simp: express_json_def split: sum.splits jsval.splits)
  then show ?thesis by (simp add: express_urlencoded_def express_raw_def)
next
  case False
  then have "body_read = None"
    using assms by (simp add: express_json_def)
  then show ?thesis
    using False by (simp add: express_urlencoded_def express_raw_def)
qed

lemma webhook_rejects:
  assumes "verify env req = Inl m"
  shows "webhook env req = rejected m"
    and "webhook_handover env req = rejected m"
    and "webhook_undefined env req = rejected m"
  using assms
  by (simp_all add: webhook_def webhook_handover_def webhook_undefined_def finish_def rejected_def)

lemma not_a_signature_error:
  assumes "verify env req = Inr event"
  shows "sent (webhook env req) \<noteq>
           Some \<lparr>status = 400, payload = WebhookError (SignatureError m)\<rparr>"
    and "sent (webhook_handover env req) \<noteq>
           Some \<lparr>status = 400, payload = WebhookError (SignatureError m)\<rparr>"
proof -
  let ?reject = "Some \<lparr>status = 400, payload = WebhookError (SignatureError m)\<rparr>"
  show "sent (webhook env req) \<noteq> ?reject"
  proof
    assume "sent (webhook env req) = ?reject"
    then have "fst (on_event env event) = Some (SignatureError m)"
      using finish_sent_400 by (simp add: webhook_def assms)
    then show False using on_event_errors [of env event "SignatureError m"]
      by (cases "on_event env event") auto
  qed
  show "sent (webhook_handover env req) \<noteq> ?reject"
  proof
    assume "sent (webhook_handover env req) = ?reject"
    then have "fst (on_event_handover env event) = Some (SignatureError m)"
      using finish_sent_400 by (simp add: webhook_handover_def assms)
    then show False using on_event_handover_errors [of env event "SignatureError m"]
      by (cases "on_event_handover env event") auto
  qed
qed

lemma signing_env_calls:
  "constructEvent (signing_env bytes event listing) handed sig secret =
     (if handed = JStr bytes \<and> sig = JStr ''valid'' \<and> secret = JStr ''whsec_test''
      then Inr event
      else Inl ''No signatures found matching the expected signature for payload'')"
  "endpointSecret (signing_env bytes event listing) = JStr ''whsec_test''"
  "listLineItems (signing_env bytes event listing) sid n = listing n"
  "printfulCreateOrder (signing_env bytes event listing) order =
     Inr (JObj [(''data'', JObj [(''code'', JNum (Finite 200))])])"
  by (simp_all add: signing_env_def stub_env_def)

lemma signing_env_library:
  "\<not> is_raw handed \<Longrightarrow>
     \<exists>m. constructEvent (signing_env bytes event listing) handed sig secret = Inl m"
  by (cases handed) (simp_all add: signing_env_calls)

lemma example_media_types:
  "media_type signed_delivery = ''application/json''"
  "media_type forged_delivery = ''application/json''"
  "media_type altered_delivery = ''application/json''"
  unfolding signed_delivery_def forged_delivery_def altered_delivery_def by code_simp+

lemma example_signatures:
  "header (received signed_delivery JUndefined) ''stripe-signature'' = JStr ''valid''"
  "header (received forged_delivery JUndefined) ''stripe-signature'' = JStr ''forged''"
  "header (received altered_delivery JUndefined) ''stripe-signature'' = JStr ''valid''"
  "raw signed_delivery = event_text" "raw forged_delivery = event_text"
  "raw altered_delivery = event_text @ '' ''"
  by (simp_all add: header_def received_def signed_delivery_def forged_delivery_def
      altered_delivery_def)

lemma example_env_calls:
  "constructEvent example_env handed sig secret =
     (if handed = JStr event_text \<and> sig = JStr ''valid'' \<and> secret = JStr ''whsec_test''
      then Inr (completed_event example_session)
      else Inl ''No signatures found matching the expected signature for payload'')"
  "endpointSecret example_env = JStr ''whsec_test''"
  "listLineItems example_env sid n = Inr (first_page n (map as_listed example_line_items))"
  "printfulCreateOrder example_env order =
     Inr (JObj [(''data'', JObj [(''code'', JNum (Finite 200))])])"
  by (simp_all add: example_env_def signing_env_calls)

lemma example_env_library:
  "\<not> is_raw handed \<Longrightarrow> \<exists>m. constructEvent example_env handed sig secret = Inl m"
  by (simp add: example_env_def signing_env_library)

lemma example_items_translated:
  "js_map printful_item (JArr (map as_listed example_line_items)) =
     Inr [JObj [(''variant_id'', JNum (Finite 4012345678)), (''quantity'', JNum (Finite 2))],
          JObj [(''variant_id'', JNum (Finite 4012345679)), (''quantity'', JNum (Finite 1))]]"
  unfolding example_line_items_def by code_simp

lemma event_text_altered: "event_text @ '' '' \<noteq> event_text"
  by simp

lemma example_checks:
  "signature_check example_env signed_delivery = Inr (completed_event example_session)"
  "signature_check example_env forged_delivery =
     Inl ''No signatures found matching the expected signature for payload''"
  "signature_check example_env altered_delivery =
     Inl ''No signatures found matching the expected signature for payload''"
  by (simp_all add: signature_check_def example_signatures example_env_calls)

lemma example_parsed:
  "express_json example_parsers signed_delivery None = Inr (Some (completed_event example_session))"
  by (simp add: express_json_def example_media_types example_parsers_def example_signatures
      completed_event_def)

section \<open>Webhook intake\<close>

text \<open>
  Claim C1. The check of the signature is the payment library's, over the bytes of the
  body. The library is a parameter, with one hypothesis: it constructs an event from the
  bytes only, and throws when it is handed a parsed body. In server.js (and its copy)
  and in the file of \<open>handleCheckoutSessionCompleted\<close> the raw parser of the route is
  the first to read the body. There a delivery whose signature does not verify is
  answered 400 with no outbound call at all; and for a delivery of type
  \<open>application/json\<close> whose signature verifies, the verification of the handler
  passes, the handler goes on with the event, and no answer is the 400 of a signature
  failure. The third server file breaks the claim: it registers \<open>express.json()\<close>
  ahead of the route, against its own comment, so its handler never finds the bytes.
  Every delivery there, also one that is signed correctly, is answered 400 and nothing
  else is done.
\<close>

theorem C1_signature_check_on_the_raw_body:
  assumes library:
    "\<And>handed sig secret. \<not> is_raw handed \<Longrightarrow> \<exists>m. constructEvent env handed sig secret = Inl m"
  shows "(signature_check env d = Inl msg \<longrightarrow>
            (\<exists>m. post_webhook env d = rejected m \<and>
                  (media_type d = ''application/json'' \<longrightarrow> m = msg)) \<and>
            (\<exists>m. post_webhook_handover env d = rejected m \<and>
                  (media_type d = ''application/json'' \<longrightarrow> m = msg))) \<and>
         (signature_check env d = Inr event \<and> media_type d = ''application/json'' \<longrightarrow>
            verify env (received d (express_raw d None)) = Inr event \<and>
            post_webhook env d = finish (on_event env event) \<and>
            post_webhook_handover env d = finish (on_event_handover env event) \<and>
            sent (post_webhook env d) \<noteq>
              Some \<lparr>status = 400, payload = WebhookError (SignatureError m')\<rparr> \<and>
            sent (post_webhook_handover env d) \<noteq>
              Some \<lparr>status = 400, payload = WebhookError (SignatureError m')\<rparr>) \<and>
         (\<exists>p. sent (post_webhook_undefined ps env d) = Some \<lparr>status = 400, payload = p\<rparr>) \<and>
         calls (post_webhook_undefined ps env d) = []"
proof (intro conjI impI)
  assume failed: "signature_check env d = Inl msg"
  have "\<exists>m. verify env (received d (express_raw d None)) = Inl m \<and>
            (media_type d = ''application/json'' \<longrightarrow> m = msg)"
  proof (cases "media_type d = ''application/json''")
    case True
    then show ?thesis
      using failed by (simp add: verify_received express_raw_alone signature_check_def)
  next
    case False
    then show ?thesis
      using library [of "JObj []"] by (simp add: verify_received express_raw_alone)
  qed
  then obtain m where m: "verify env (received d (express_raw d None)) = Inl m"
    "media_type d = ''application/json'' \<longrightarrow> m = msg"
    by blast
  show "\<exists>m. post_webhook env d = rejected m \<and>
            (media_type d = ''application/json'' \<longrightarrow> m = msg)"
    using m webhook_rejects(1) [OF m(1)] by (auto simp: post_webhook_def)
  show "\<exists>m. post_webhook_handover env d = rejected m \<and>
            (media_type d = ''application/json'' \<longrightarrow> m = msg)"
    using m webhook_rejects(2) [OF m(1)] by (auto simp: post_webhook_handover_def)
next
  assume "signature_check env d = Inr event \<and> media_type d = ''application/json''"
  then show v: "verify env (received d (express_raw d None)) = Inr event"
    by (simp add: verify_received express_raw_alone signature_check_def)
  show "post_webhook env d = finish (on_event env event)"
    by (simp add: post_webhook_def webhook_def v)
  show "post_webhook_handover env d = finish (on_event_handover env event)"
    by (simp add: post_webhook_handover_def webhook_handover_def v)
  show "sent (post_webhook env d) \<noteq>
      Some \<lparr>status = 400, payload = WebhookError (SignatureError m')\<rparr>"
    using not_a_signature_error(1) [OF v] by (simp add: post_webhook_def)
  show "sent (post_webhook_handover env d) \<noteq>
      Some \<lparr>status = 400, payload = WebhookError (SignatureError m')\<rparr>"
    using not_a_signature_error(2) [OF v] by (simp add: post_webhook_handover_def)
next
  show "\<exists>p. sent (post_webhook_undefined ps env d) = Some \<lparr>status = 400, payload = p\<rparr>"
  proof (cases "express_json ps d None")
    case (Inl m)
    then show ?thesis by (simp add: post_webhook_undefined_def)
  next
    case (Inr body_read)
    obtain m where "verify env (received d (express_raw d (express_urlencoded ps d body_read))) =
        Inl m"
      using library [OF parsed_body_is_not_raw [OF Inr]] by (auto simp: verify_received)
    then show ?thesis
      using Inr by (simp add: post_webhook_undefined_def webhook_rejects(3) rejected_def)
  qed
  show "calls (post_webhook_undefined ps env d) = []"
  proof (cases "express_json ps d None")
    case (Inl m)
    then show ?thesis by (simp add: post_webhook_undefined_def)
  next
    case (Inr body_read)
    obtain m where "verify env (received d (express_raw d (express_urlencoded ps d body_read))) =
        Inl m"
      using library [OF parsed_body_is_not_raw [OF Inr]] by (auto simp: verify_received)
    then show ?thesis
      using Inr by (simp add: post_webhook_undefined_def webhook_rejects(3) rejected_def)
  qed
qed

theorem C1_witness:
  "signature_check example_env signed_delivery = Inr (completed_event example_session) \<and>
   media_type signed_delivery = ''application/json'' \<and>
   verify example_env (received signed_delivery (express_raw signed_delivery None)) =
     Inr (completed_event example_session) \<and>
   sent (post_webhook example_env signed_delivery) =
     Some \<lparr>status = 200, payload = Text ''Webhook received!''\<rparr> \<and>
   sent (post_webhook_handover example_env signed_delivery) =
     Some \<lparr>status = 200, payload = Text ''Webhook received!''\<rparr> \<and>
   post_webhook example_env forged_delivery =
     rejected ''No signatures found matching the expected signature for payload'' \<and>
   post_webhook example_env altered_delivery =
     rejected ''No signatures found matching the expected signature for payload'' \<and>
   post_webhook_handover example_env forged_delivery =
     rejected ''No signatures found matching the expected signature for payload'' \<and>
   post_webhook_handover example_env altered_delivery =
     rejected ''No signatures found matching the expected signature for payload'' \<and>
   post_webhook_undefined example_parsers example_env signed_delivery =
     \<lparr>sent = Some \<lparr>status = 400, payload = WebhookError (SignatureError
         ''No signatures found matching the expected signature for payload'')\<rparr>,
      calls = [],
      logged = [SignatureError
         ''No signatures found matching the expected signature for payload'']\<rparr>"
proof -
  let ?no = "''No signatures found matching the expected signature for payload''"
  note signed = C1_signature_check_on_the_raw_body
      [where env = example_env and d = signed_delivery
         and event = "completed_event example_session" and ps = example_parsers
         and m' = ?no and msg = ?no,
       OF example_env_library]
  note forged = C1_signature_check_on_the_raw_body
      [where env = example_env and d = forged_delivery
         and event = "completed_event example_session" and ps = example_parsers
         and m' = ?no and msg = ?no,
       OF example_env_library]
  note altered = C1_signature_check_on_the_raw_body
      [where env = example_env and d = altered_delivery
         and event = "completed_event example_session" and ps = example_parsers
         and m' = ?no and msg = ?no,
       OF example_env_library]
  have v: "verify example_env (received signed_delivery (express_raw signed_delivery None)) =
      Inr (completed_event example_session)"
    and served: "post_webhook example_env signed_delivery =
      finish (on_event example_env (completed_event example_session))"
    and handed_over: "post_webhook_handover example_env signed_delivery =
      finish (on_event_handover example_env (completed_event example_session))"
    using signed example_checks(1) example_media_types(1) by simp_all
  have page: "and_then (get (first_page 100 (map as_listed example_line_items)) ''data'')
      (js_map printful_item) =
        Inr [JObj [(''variant_id'', JNum (Finite 4012345678)), (''quantity'', JNum (Finite 2))],
             JObj [(''variant_id'', JNum (Finite 4012345679)), (''quantity'', JNum (Finite 1))]]"
    using example_items_translated by (simp add: first_page_data example_line_items_def)
  have ok: "sent (post_webhook example_env signed_delivery) =
      Some \<lparr>status = 200, payload = Text ''Webhook received!''\<rparr>"
    unfolding served
    by (simp add: on_event_def get_completed_event on_completed_def example_session_id
        example_env_calls page example_recipient submit_order_def finish_def split: sum.splits)
  have ok': "sent (post_webhook_handover example_env signed_delivery) =
      Some \<lparr>status = 200, payload = Text ''Webhook received!''\<rparr>"
    unfolding handed_over
    by (simp add: on_event_handover_def get_completed_event finish_def split: prod.splits)
  have f: "post_webhook example_env forged_delivery = rejected ?no"
    "post_webhook_handover example_env forged_delivery = rejected ?no"
    using forged example_checks(2) example_media_types(2) by auto
  have a: "post_webhook example_env altered_delivery = rejected ?no"
    "post_webhook_handover example_env altered_delivery = rejected ?no"
    using altered example_checks(3) example_media_types(3) by auto
  have u: "post_webhook_undefined example_parsers example_env signed_delivery = rejected ?no"
    by (simp add: post_webhook_undefined_def example_parsed express_urlencoded_def
        express_raw_def verify_received example_env_calls completed_event_def
        webhook_rejects(3))
  show ?thesis
    using v ok ok' f a u example_checks(1) example_media_types(1)
    by (simp add: rejected_def)
qed

text \<open>
  Claim C2. The claim is that a verified event is answered 200 whatever happens to the
  line-item fetch, the translation or the submission. In server.js the fetch and the
  translation run inside the \<open>try\<close> whose \<open>catch\<close> answers 400: with a verified
  \<open>checkout.session.completed\<close> event and a failing line-item call the answer is 400.
  In the file that never defines \<open>handleCheckoutSessionCompleted\<close> every such event is
  answered 400. Only a failing submission leaves the 200 in place.
\<close>

theorem C2_failed_refetch_is_answered_400:
  "webhook (stub_env (completed_event example_session)
              (\<lambda>n. Inl ''An error occurred with our connection to Stripe.'')) signed_request =
     \<lparr>sent = Some \<lparr>status = 400, payload = WebhookError
         (ApiError ''An error occurred with our connection to Stripe.'')\<rparr>,
      calls = [ListLineItems (JStr ''cs_test_1'') 100],
      logged = [ApiError ''An error occurred with our connection to Stripe.'']\<rparr> \<and>
   webhook_undefined (stub_env (completed_event example_session) (\<lambda>n. Inr (first_page n [])))
       signed_request =
     \<lparr>sent = Some \<lparr>status = 400, payload = WebhookError ReferenceError\<rparr>,
      calls = [], logged = [ReferenceError]\<rparr>"
  by (simp add: webhook_def webhook_undefined_def verify_stub on_event_def on_event_undefined_def
      get_completed_event on_completed_def example_session_id stub_env_calls finish_def)

text \<open>
  The webhook that hands over to \<open>handleCheckoutSessionCompleted\<close> does what the claim
  says: once the event is verified and has a kind and a session, the answer is 200.
\<close>

lemma webhook_handover_acknowledges:
  assumes "verify env req = Inr event"
    and "get event ''type'' = Inr kind"
    and "and_then (get event ''data'') (\<lambda>d. get d ''object'') = Inr session"
  shows "sent (webhook_handover env req) =
           Some \<lparr>status = 200, payload = Text ''Webhook received!''\<rparr>"
  using assms
  by (simp add: webhook_handover_def on_event_handover_def finish_def split: prod.splits)

text \<open>
  Claim C3. A verified event of any kind other than \<open>checkout.session.completed\<close> is
  answered 200, and the handler makes no outbound call: nothing goes to the fulfillment
  provider and no line items are fetched.
\<close>

theorem C3_other_event_kinds_are_acknowledged:
  assumes "verify env req = Inr event"
    and "get event ''type'' = Inr kind"
    and "kind \<noteq> JStr ''checkout.session.completed''"
  shows "webhook env req =
           \<lparr>sent = Some \<lparr>status = 200, payload = Text ''Webhook received!''\<rparr>,
            calls = [], logged = []\<rparr> \<and>
         webhook_undefined env req = webhook env req \<and>
         webhook_handover env req = webhook env req"
  using assms
  by (simp add: webhook_def webhook_undefined_def webhook_handover_def
      on_event_def on_event_undefined_def on_event_handover_def finish_def)

theorem C3_witness:
  "webhook (stub_env (JObj [(''type'', JStr ''payment_intent.succeeded'')])
              (\<lambda>n. Inl ''unreachable'')) signed_request =
     \<lparr>sent = Some \<lparr>status = 200, payload = Text ''Webhook received!''\<rparr>,
      calls = [], logged = []\<rparr>"
proof -
  have k: "get (JObj [(''type'', JStr ''payment_intent.succeeded'')]) ''type'' =
             Inr (JStr ''payment_intent.succeeded'')"
    by (simp add: get_def)
  have n: "JStr ''payment_intent.succeeded'' \<noteq> JStr ''checkout.session.completed''"
    by simp
  show ?thesis
    using C3_other_event_kinds_are_acknowledged [OF verify_stub(1) k n] by simp
qed

section \<open>From the cart to the fulfillment order\<close>

text \<open>
  Claim C4. The claim fails as it is stated, for every cart whose items carry a variant
  identifier. In server.js the identifier is written with \<open>String\<close> and read back with
  \<open>parseInt\<close>: for the cart \<open>coded_cart\<close>, whose first item has the identifier
  \<open>A-12\<close>, the metadata holds \<open>A-12\<close> and the order line holds \<open>NaN\<close>. The webhook
  of server.js fetches one page of 100 line items: for a cart of 101 items the order has
  100 lines. In the file of \<open>handleCheckoutSessionCompleted\<close> an item needs its product
  identifier too: for the cart \<open>unlisted_cart\<close>, whose second item has a variant
  identifier and no \<open>id\<close>, the order has one line.
\<close>

theorem C4_identifiers_that_do_not_reach_the_order:
  "js_map line_item (JArr coded_cart) = Inr coded_line_items \<and>
   calls (webhook (stub_env (completed_event example_session)
                     (\<lambda>n. Inr (first_page n (map as_listed coded_line_items))))
            signed_request) =
     [ListLineItems (JStr ''cs_test_1'') 100,
      PrintfulCreateOrder
        (JObj [(''recipient'', JObj
                  [(''name'', JStr ''Pat Doe''),
                   (''address1'', JStr ''1 Main St''),
                   (''address2'', JStr ''''),
                   (''city'', JStr ''Springfield''),
                   (''state_code'', JStr ''IL''),
                   (''country_code'', JStr ''US''),
                   (''zip'', JStr ''62701'')]),
               (''items'', JArr
                  [JObj [(''variant_id'', JNum NaN), (''quantity'', JNum (Finite 2))],
                   JObj [(''variant_id'', JNum (Finite 4012345679)),
                         (''quantity'', JNum (Finite 1))]]),
               (''confirm'', JNum (Finite 1))])] \<and>
   js_map line_item (JArr long_cart) = Inr long_line_items \<and>
   length long_cart = 101 \<and>
   calls (webhook (stub_env (completed_event example_session)
                     (\<lambda>n. Inr (first_page n (map as_listed long_line_items))))
            signed_request) =
     [ListLineItems (JStr ''cs_test_1'') 100,
      PrintfulCreateOrder
        (JObj [(''recipient'', JObj
                  [(''name'', JStr ''Pat Doe''),
                   (''address1'', JStr ''1 Main St''),
                   (''address2'', JStr ''''),
                   (''city'', JStr ''Springfield''),
                   (''state_code'', JStr ''IL''),
                   (''country_code'', JStr ''US''),
                   (''zip'', JStr ''62701'')]),
               (''items'', JArr (replicate 100
                  (JObj [(''variant_id'', JNum (Finite 4012345678)),
                         (''quantity'', JNum (Finite 2))]))),
               (''confirm'', JNum (Finite 1))])] \<and>
   js_map line_item_handover (JArr unlisted_cart) = Inr unlisted_line_items \<and>
   calls (webhook_handover (stub_env (completed_event example_session)
                     (\<lambda>n. Inr (first_page n (map as_retrieved unlisted_line_items))))
            signed_request) =
     [RetrieveSession (JStr ''cs_test_1''),
      PrintfulCreateOrder
        (JObj [(''recipient'', JObj
                 [(''name'', JStr ''Pat Doe''),
                  (''address1'', JStr ''1 Main St''),
                  (''city'', JStr ''Springfield''),
                  (''state_code'', JStr ''IL''),
                  (''country_code'', JStr ''US''),
                  (''zip'', JStr ''62701''),
                  (''email'', JStr ''pat@example.com''),
                  (''phone'', JStr ''555-0100'')]),
               (''items'', JArr
                  [JObj [(''sync_variant_id'', JNum (Finite 4012345678)),
                         (''quantity'', JNum (Finite 2))]])])]"
proof -
  have coded: "and_then (get (first_page 100 (map as_listed coded_line_items)) ''data'')
        (js_map printful_item) =
      Inr [JObj [(''variant_id'', JNum NaN), (''quantity'', JNum (Finite 2))],
           JObj [(''variant_id'', JNum (Finite 4012345679)), (''quantity'', JNum (Finite 1))]]"
    using coded_items_translated
    by (simp add: first_page_data coded_line_items_def)
  have long: "and_then (get (first_page 100 (map as_listed long_line_items)) ''data'')
        (js_map printful_item) =
      Inr (replicate 100
            (JObj [(''variant_id'', JNum (Finite 4012345678)), (''quantity'', JNum (Finite 2))]))"
    using long_items_translated by (simp add: first_page_data)
  have server: "calls (webhook (stub_env (completed_event example_session)
                     (\<lambda>n. Inr (first_page n (map as_listed held)))) signed_request) =
      [ListLineItems (JStr ''cs_test_1'') 100,
       PrintfulCreateOrder
         (JObj [(''recipient'', JObj
                  [(''name'', JStr ''Pat Doe''),
                   (''address1'', JStr ''1 Main St''),
                   (''address2'', JStr ''''),
                   (''city'', JStr ''Springfield''),
                   (''state_code'', JStr ''IL''),
                   (''country_code'', JStr ''US''),
                   (''zip'', JStr ''62701'')]),
                (''items'', JArr orderLines),
                (''confirm'', JNum (Finite 1))])]"
    if "and_then (get (first_page 100 (map as_listed held)) ''data'') (js_map printful_item) =
          Inr orderLines" for held orderLines
    using that
    by (simp add: webhook_def verify_stub on_event_def get_completed_event on_completed_def
        example_session_id stub_env_calls example_recipient submit_order_def finish_def
        split: sum.splits)
  have details: "truthy (own_prop example_session ''customer_details'')"
    by (simp add: example_session_def)
  have few: "length (map as_retrieved unlisted_line_items) \<le> 100"
    by (simp add: unlisted_line_items_def)
  have handed: "handleCheckoutSessionCompleted
        (stub_env (completed_event example_session)
           (\<lambda>n. Inr (first_page n (map as_retrieved unlisted_line_items)))) example_session =
      ([RetrieveSession (JStr ''cs_test_1''),
        PrintfulCreateOrder
          (JObj [(''recipient'', JObj
                   [(''name'', JStr ''Pat Doe''),
                    (''address1'', JStr ''1 Main St''),
                    (''city'', JStr ''Springfield''),
                    (''state_code'', JStr ''IL''),
                    (''country_code'', JStr ''US''),
                    (''zip'', JStr ''62701''),
                    (''email'', JStr ''pat@example.com''),
                    (''phone'', JStr ''555-0100'')]),
                 (''items'', JArr
                    [JObj [(''sync_variant_id'', JNum (Finite 4012345678)),
                           (''quantity'', JNum (Finite 2))]])])], [])"
    unfolding handover_of_retrieved
      [OF example_session_id stub_retrieved(1) stub_retrieved(2) [OF few]
          unlisted_items_retrieved(1)]
    by (simp add: unlisted_items_retrieved(2) details example_order_recipient submit_order_def
        stub_env_calls get_def)
  have handover: "calls (webhook_handover (stub_env (completed_event example_session)
                     (\<lambda>n. Inr (first_page n (map as_retrieved unlisted_line_items))))
            signed_request) =
      fst (handleCheckoutSessionCompleted
        (stub_env (completed_event example_session)
           (\<lambda>n. Inr (first_page n (map as_retrieved unlisted_line_items)))) example_session)"
    by (simp add: webhook_handover_def verify_stub on_event_handover_def get_completed_event
        finish_def split: prod.splits)
  have len: "length long_cart = 101"
    by (simp add: long_cart_def)
  show ?thesis
    unfolding handover handed
    using server [OF coded] server [OF long] coded_cart_created long_cart_created
      unlisted_cart_created len
    by simp
qed

text \<open>
  Claim C4, as amended. In server.js, for a cart of at most 100 items whose variant
  identifiers are safe integers (the identifiers of the fulfillment provider):
  \<open>String\<close> followed by \<open>parseInt\<close> gives each identifier back, so when the processor
  lists the line items with the price metadata they were created with, the order
  submitted for the completed session has one line per cart item, holding that item's
  variant identifier and quantity, and the session's recipient. In the file of
  \<open>handleCheckoutSessionCompleted\<close>, for a cart that is not empty and whose items carry
  a variant identifier and an \<open>id\<close>: when the session the processor returns holds the
  line items with the product metadata they were created with, and the session has its
  customer details, the order has one line per cart item, holding the item's variant
  identifier as it is and its quantity, and the session's recipient.
\<close>

theorem C4_order_lines_match_the_cart:
  assumes verified: "verify env req = Inr event"
    and kind: "get event ''type'' = Inr (JStr ''checkout.session.completed'')"
    and session: "and_then (get event ''data'') (\<lambda>d. get d ''object'') = Inr session"
    and sid: "get session ''id'' = Inr sid"
  shows "((\<forall>item\<in>set cart. \<not> nullish item \<and> is_safe_integer (own_prop item ''variant_id'')) \<and>
          length cart \<le> 100 \<and>
          js_map line_item (JArr cart) = Inr lineItems \<and>
          listLineItems env sid 100 = Inr (first_page 100 (map as_listed lineItems)) \<and>
          recipient_of session = Inr recipient \<longrightarrow>
            length lineItems = length cart \<and>
            sent (webhook env req) =
              Some \<lparr>status = 200, payload = Text ''Webhook received!''\<rparr> \<and>
            calls (webhook env req) =
              [ListLineItems sid 100,
               PrintfulCreateOrder
                 (JObj [(''recipient'', recipient),
                        (''items'', JArr (map expected_order_line cart)),
                        (''confirm'', JNum (Finite 1))])]) \<and>
         ((\<forall>item\<in>set cart'. \<not> nullish item \<and> truthy (own_prop item ''variant_id'') \<and>
                truthy (own_prop item ''id'')) \<and>
          cart' \<noteq> [] \<and>
          js_map line_item_handover (JArr cart') = Inr lineItems' \<and>
          retrieveSession env sid = Inr checkoutSession \<and>
          and_then (get checkoutSession ''line_items'') (\<lambda>line_items. get line_items ''data'') =
            Inr (JArr (map as_retrieved lineItems')) \<and>
          truthy (own_prop session ''customer_details'') \<and>
          order_recipient session = Inr recipient' \<longrightarrow>
            length lineItems' = length cart' \<and>
            sent (webhook_handover env req) =
              Some \<lparr>status = 200, payload = Text ''Webhook received!''\<rparr> \<and>
            calls (webhook_handover env req) =
              [RetrieveSession sid,
               PrintfulCreateOrder
                 (JObj [(''recipient'', recipient'),
                        (''items'', JArr (map expected_sync_line cart'))])])"
proof (intro conjI impI)
  assume a: "(\<forall>item\<in>set cart. \<not> nullish item \<and> is_safe_integer (own_prop item ''variant_id'')) \<and>
          length cart \<le> 100 \<and>
          js_map line_item (JArr cart) = Inr lineItems \<and>
          listLineItems env sid 100 = Inr (first_page 100 (map as_listed lineItems)) \<and>
          recipient_of session = Inr recipient"
  then have ids: "\<forall>item\<in>set cart. \<not> nullish item \<and> is_safe_integer (own_prop item ''variant_id'')"
    and few: "length cart \<le> 100"
    and created: "js_map line_item (JArr cart) = Inr lineItems"
    and listed: "listLineItems env sid 100 = Inr (first_page 100 (map as_listed lineItems))"
    and recipient: "recipient_of session = Inr recipient"
    by simp_all
  have l2: "list_all2 (\<lambda>item li. line_item item = Inr li) cart lineItems"
    using created by (simp add: map_result_Inr_iff)
  then show len: "length lineItems = length cart"
    by (simp add: list_all2_lengthD)
  have page: "and_then (get (first_page 100 (map as_listed lineItems)) ''data'')
                (js_map printful_item) = Inr (map expected_order_line cart)"
    using few len translate_created_items [OF l2 ids]
    by (simp add: first_page_def get_def)
  show "sent (webhook env req) = Some \<lparr>status = 200, payload = Text ''Webhook received!''\<rparr>"
    by (simp add: webhook_def verified on_event_def kind session on_completed_def sid
        listed page recipient submit_order_def finish_def split: sum.splits)
  show "calls (webhook env req) =
              [ListLineItems sid 100,
               PrintfulCreateOrder
                 (JObj [(''recipient'', recipient),
                        (''items'', JArr (map expected_order_line cart)),
                        (''confirm'', JNum (Finite 1))])]"
    by (simp add: webhook_def verified on_event_def kind session on_completed_def sid
        listed page recipient submit_order_def finish_def split: sum.splits)
next
  assume b: "(\<forall>item\<in>set cart'. \<not> nullish item \<and> truthy (own_prop item ''variant_id'') \<and>
                truthy (own_prop item ''id'')) \<and>
          cart' \<noteq> [] \<and>
          js_map line_item_handover (JArr cart') = Inr lineItems' \<and>
          retrieveSession env sid = Inr checkoutSession \<and>
          and_then (get checkoutSession ''line_items'') (\<lambda>line_items. get line_items ''data'') =
            Inr (JArr (map as_retrieved lineItems')) \<and>
          truthy (own_prop session ''customer_details'') \<and>
          order_recipient session = Inr recipient'"
  then have ids: "\<forall>item\<in>set cart'. \<not> nullish item \<and> truthy (own_prop item ''variant_id'') \<and>
                truthy (own_prop item ''id'')"
    and some: "cart' \<noteq> []"
    and created: "js_map line_item_handover (JArr cart') = Inr lineItems'"
    and retrieved: "retrieveSession env sid = Inr checkoutSession"
    and held: "and_then (get checkoutSession ''line_items'')
                 (\<lambda>line_items. get line_items ''data'') = Inr (JArr (map as_retrieved lineItems'))"
    and details: "truthy (own_prop session ''customer_details'')"
    and recipient: "order_recipient session = Inr recipient'"
    by simp_all
  have l2: "list_all2 (\<lambda>item li. line_item_handover item = Inr li) cart' lineItems'"
    using created by (simp add: map_result_Inr_iff)
  then show len: "length lineItems' = length cart'"
    by (simp add: list_all2_lengthD)
  note r = retrieved_created_items [OF l2 ids]
  have lines: "map kept_line (filter has_identifiers (map as_retrieved lineItems')) =
      map expected_sync_line cart'"
    using r by simp
  have h: "handleCheckoutSessionCompleted env session =
      (case submit_order env
              (JObj [(''recipient'', recipient'),
                     (''items'', JArr (map expected_sync_line cart'))])
              [RetrieveSession sid] of
         (_, cs, ls) \<Rightarrow> (cs, ls))"
    using r some
    by (simp add: handover_of_retrieved [OF sid retrieved held] lines details recipient Let_def
        split: prod.splits)
  have w: "webhook_handover env req =
             finish (case handleCheckoutSessionCompleted env session of (cs, ls) \<Rightarrow> (None, cs, ls))"
    by (simp add: webhook_handover_def verified on_event_handover_def kind session)
  show "sent (webhook_handover env req) =
      Some \<lparr>status = 200, payload = Text ''Webhook received!''\<rparr>"
    unfolding w by (simp add: finish_def split: prod.splits)
  show "calls (webhook_handover env req) =
              [RetrieveSession sid,
               PrintfulCreateOrder
                 (JObj [(''recipient'', recipient'),
                        (''items'', JArr (map expected_sync_line cart'))])]"
    unfolding w h by (simp add: finish_def submit_order_def split: sum.splits prod.splits)
qed

theorem C4_witness:
  "length example_line_items = length example_cart \<and>
   sent (webhook (stub_env (completed_event example_session)
                    (\<lambda>n. Inr (first_page n (map as_listed example_line_items))))
           signed_request) =
     Some \<lparr>status = 200, payload = Text ''Webhook received!''\<rparr> \<and>
   calls (webhook (stub_env (completed_event example_session)
                     (\<lambda>n. Inr (first_page n (map as_listed example_line_items))))
            signed_request) =
     [ListLineItems (JStr ''cs_test_1'') 100,
      PrintfulCreateOrder
        (JObj [(''recipient'', JObj
                  [(''name'', JStr ''Pat Doe''),
                   (''address1'', JStr ''1 Main St''),
                   (''address2'', JStr ''''),
                   (''city'', JStr ''Springfield''),
                   (''state_code'', JStr ''IL''),
                   (''country_code'', JStr ''US''),
                   (''zip'', JStr ''62701'')]),
               (''items'', JArr
                  [JObj [(''variant_id'', JNum (Finite 4012345678)),
                         (''quantity'', JNum (Finite 2))],
                   JObj [(''variant_id'', JNum (Finite 4012345679)),
                         (''quantity'', JNum (Finite 1))]]),
               (''confirm'', JNum (Finite 1))])] \<and>
   length example_line_items_handover = length example_cart \<and>
   sent (webhook_handover (stub_env (completed_event example_session)
                    (\<lambda>n. Inr (first_page n (map as_retrieved example_line_items_handover))))
           signed_request) =
     Some \<lparr>status = 200, payload = Text ''Webhook received!''\<rparr> \<and>
   calls (webhook_handover (stub_env (completed_event example_session)
                     (\<lambda>n. Inr (first_page n (map as_retrieved example_line_items_handover))))
            signed_request) =
     [RetrieveSession (JStr ''cs_test_1''),
      PrintfulCreateOrder
        (JObj [(''recipient'', JObj
                 [(''name'', JStr ''Pat Doe''),
                  (''address1'', JStr ''1 Main St''),
                  (''city'', JStr ''Springfield''),
                  (''state_code'', JStr ''IL''),
                  (''country_code'', JStr ''US''),
                  (''zip'', JStr ''62701''),
                  (''email'', JStr ''pat@example.com''),
                  (''phone'', JStr ''555-0100'')]),
               (''items'', JArr
                  [JObj [(''sync_variant_id'', JNum (Finite 4012345678)),
                         (''quantity'', JNum (Finite 2))],
                   JObj [(''sync_variant_id'', JNum (Finite 4012345679)),
                         (''quantity'', JNum (Finite 1))]])])]"
proof -
  let ?listing = "\<lambda>n. Inr (first_page n (map as_listed example_line_items))"
  let ?retrieving = "\<lambda>n. Inr (first_page n (map as_retrieved example_line_items_handover))"
  have few: "length example_cart \<le> 100" by (simp add: example_cart_def)
  have listed:
    "listLineItems (stub_env (completed_event example_session) ?listing) (JStr ''cs_test_1'') 100 =
       Inr (first_page 100 (map as_listed example_line_items))"
    by (simp add: stub_env_calls)
  have lines: "map expected_order_line example_cart =
      [JObj [(''variant_id'', JNum (Finite 4012345678)), (''quantity'', JNum (Finite 2))],
       JObj [(''variant_id'', JNum (Finite 4012345679)), (''quantity'', JNum (Finite 1))]]"
    by (simp add: expected_order_line_def example_cart_def)
  have ids: "\<forall>item\<in>set example_cart. \<not> nullish item \<and> truthy (own_prop item ''variant_id'') \<and>
      truthy (own_prop item ''id'')"
    and some: "example_cart \<noteq> []"
    by (simp_all add: example_cart_def)
  have short: "length (map as_retrieved example_line_items_handover) \<le> 100"
    by (simp add: example_line_items_handover_def)
  have details: "truthy (own_prop example_session ''customer_details'')"
    by (simp add: example_session_def)
  have sync_lines: "map expected_sync_line example_cart =
      [JObj [(''sync_variant_id'', JNum (Finite 4012345678)), (''quantity'', JNum (Finite 2))],
       JObj [(''sync_variant_id'', JNum (Finite 4012345679)), (''quantity'', JNum (Finite 1))]]"
    by (simp add: expected_sync_line_def example_cart_def)
  note server = C4_order_lines_match_the_cart
      [OF verify_stub(1) [of "completed_event example_session" ?listing]
          get_completed_event example_session_id,
       where cart = example_cart and lineItems = example_line_items
         and recipient = "JObj
                  [(''name'', JStr ''Pat Doe''),
                   (''address1'', JStr ''1 Main St''),
                   (''address2'', JStr ''''),
                   (''city'', JStr ''Springfield''),
                   (''state_code'', JStr ''IL''),
                   (''country_code'', JStr ''US''),
                   (''zip'', JStr ''62701'')]",
       THEN conjunct1]
  note handover = C4_order_lines_match_the_cart
      [OF verify_stub(1) [of "completed_event example_session" ?retrieving]
          get_completed_event example_session_id,
       where cart' = example_cart
         and lineItems' = example_line_items_handover
         and checkoutSession = "JObj [(''id'', JStr ''cs_test_1''),
               (''line_items'', first_page 100 (map as_retrieved example_line_items_handover))]"
         and recipient' = "JObj
                 [(''name'', JStr ''Pat Doe''),
                  (''address1'', JStr ''1 Main St''),
                  (''city'', JStr ''Springfield''),
                  (''state_code'', JStr ''IL''),
                  (''country_code'', JStr ''US''),
                  (''zip'', JStr ''62701''),
                  (''email'', JStr ''pat@example.com''),
                  (''phone'', JStr ''555-0100'')]",
       THEN conjunct2]
  have one: "length example_line_items = length example_cart \<and>
      sent (webhook (stub_env (completed_event example_session) ?listing) signed_request) =
        Some \<lparr>status = 200, payload = Text ''Webhook received!''\<rparr> \<and>
      calls (webhook (stub_env (completed_event example_session) ?listing) signed_request) =
        [ListLineItems (JStr ''cs_test_1'') 100,
         PrintfulCreateOrder
           (JObj [(''recipient'', JObj
                  [(''name'', JStr ''Pat Doe''),
                   (''address1'', JStr ''1 Main St''),
                   (''address2'', JStr ''''),
                   (''city'', JStr ''Springfield''),
                   (''state_code'', JStr ''IL''),
                   (''country_code'', JStr ''US''),
                   (''zip'', JStr ''62701'')]),
                  (''items'', JArr (map expected_order_line example_cart)),
                  (''confirm'', JNum (Finite 1))])]"
    using server example_cart_ids few example_cart_created listed example_recipient by blast
  have two: "length example_line_items_handover = length example_cart \<and>
      sent (webhook_handover (stub_env (completed_event example_session) ?retrieving)
              signed_request) =
        Some \<lparr>status = 200, payload = Text ''Webhook received!''\<rparr> \<and>
      calls (webhook_handover (stub_env (completed_event example_session) ?retrieving)
               signed_request) =
        [RetrieveSession (JStr ''cs_test_1''),
         PrintfulCreateOrder
           (JObj [(''recipient'', JObj
                 [(''name'', JStr ''Pat Doe''),
                  (''address1'', JStr ''1 Main St''),
                  (''city'', JStr ''Springfield''),
                  (''state_code'', JStr ''IL''),
                  (''country_code'', JStr ''US''),
                  (''zip'', JStr ''62701''),
                  (''email'', JStr ''pat@example.com''),
                  (''phone'', JStr ''555-0100'')]),
                  (''items'', JArr (map expected_sync_line example_cart))])]"
    using handover ids some example_cart_created_handover stub_retrieved(1)
      stub_retrieved(2) [OF short] details example_order_recipient
    by blast
  show ?thesis
    using one two by (simp only: lines sync_lines) 
qed

text \<open>
  Claim C5. The claim holds in the server file that defines
  \<open>handleCheckoutSessionCompleted\<close>, and fails in server.js, whose webhook has no step
  that drops an item: with two listed line items, the second without a variant
  identifier, server.js submits an order of two lines, the second with the identifier
  \<open>NaN\<close>.
\<close>

theorem C5_server_js_keeps_the_item_without_identifier:
  "calls (webhook (stub_env (completed_event example_session)
                     (\<lambda>n. Inr (first_page n [listed_with_id, listed_without_id])))
            signed_request) =
     [ListLineItems (JStr ''cs_test_1'') 100,
      PrintfulCreateOrder
        (JObj [(''recipient'', JObj
                  [(''name'', JStr ''Pat Doe''),
                   (''address1'', JStr ''1 Main St''),
                   (''address2'', JStr ''''),
                   (''city'', JStr ''Springfield''),
                   (''state_code'', JStr ''IL''),
                   (''country_code'', JStr ''US''),
                   (''zip'', JStr ''62701'')]),
               (''items'', JArr
                  [JObj [(''variant_id'', JNum (Finite 4012345678)),
                         (''quantity'', JNum (Finite 2))],
                   JObj [(''variant_id'', JNum NaN), (''quantity'', JNum (Finite 1))]]),
               (''confirm'', JNum (Finite 1))])]"
  by (simp add: webhook_def verify_stub on_event_def get_completed_event on_completed_def
      example_session_id stub_env_calls first_page_data listed_pair_translated example_recipient
      submit_order_def finish_def split: sum.splits)

text \<open>
  Claim C5, as amended. In the server file that defines
  \<open>handleCheckoutSessionCompleted\<close>, for a retrieved session whose line items all
  carry product metadata: an item whose metadata lacks the variant or the product
  identifier is dropped and the others are submitted, provided the session has its
  customer details; when every item is dropped, or the customer details are absent, no
  order is submitted and the error is logged; the webhook answers 200 in every case.
  The webhook of server.js drops nothing: it builds one order line for every listed
  line item.
\<close>

theorem C5_items_without_identifiers:
  assumes sid: "get session ''id'' = Inr sid"
    and retrieved: "retrieveSession env sid = Inr checkoutSession"
    and items: "and_then (get checkoutSession ''line_items'')
                  (\<lambda>line_items. get line_items ''data'') = Inr (JArr items)"
    and metadata: "\<forall>item\<in>set items. has_product_metadata item"
    and verified: "verify env req = Inr event"
    and kind: "get event ''type'' = Inr (JStr ''checkout.session.completed'')"
    and session: "and_then (get event ''data'') (\<lambda>d. get d ''object'') = Inr session"
  shows "(filter has_identifiers items \<noteq> [] \<and> truthy (own_prop session ''customer_details'') \<and>
          order_recipient session = Inr recipient \<longrightarrow>
            calls (webhook_handover env req) =
              [RetrieveSession sid,
               PrintfulCreateOrder
                 (JObj [(''recipient'', recipient),
                        (''items'', JArr (map kept_line (filter has_identifiers items)))])]) \<and>
         (filter has_identifiers items = [] \<longrightarrow>
            calls (webhook_handover env req) = [RetrieveSession sid] \<and>
            logged (webhook_handover env req) = [Error ''No valid items for Printful order.'']) \<and>
         (filter has_identifiers items \<noteq> [] \<and> \<not> truthy (own_prop session ''customer_details'') \<longrightarrow>
            calls (webhook_handover env req) = [RetrieveSession sid] \<and>
            logged (webhook_handover env req) = [Error ''Missing customer details in session.'']) \<and>
         sent (webhook_handover env req) =
           Some \<lparr>status = 200, payload = Text ''Webhook received!''\<rparr> \<and>
         (js_map printful_item (JArr listed) = Inr orderLines \<longrightarrow>
            length orderLines = length listed)"
proof -
  have mapped: "and_then (get checkoutSession ''line_items'') (\<lambda>line_items.
                   and_then (get line_items ''data'') (js_map order_item)) =
      Inr (map (\<lambda>item. if has_identifiers item then kept_line item else JNull) items)"
    using items js_map_order_item [OF metadata]
    by (auto simp: and_then_def split: sum.splits)
  have h: "handleCheckoutSessionCompleted env session =
     (let orderItems = map kept_line (filter has_identifiers items) in
                     if orderItems = [] then
                       ([RetrieveSession sid], [Error ''No valid items for Printful order.''])
                     else if \<not> truthy (own_prop session ''customer_details'') then
                       ([RetrieveSession sid], [Error ''Missing customer details in session.''])
                     else
                       (case order_recipient session of
                          Inl e \<Rightarrow> ([RetrieveSession sid], [e])
                        | Inr recipient \<Rightarrow>
                            (case submit_order env
                                    (JObj [(''recipient'', recipient), (''items'', JArr orderItems)])
                                    [RetrieveSession sid] of
                               (_, cs, ls) \<Rightarrow> (cs, ls))))"
    by (simp add: handleCheckoutSessionCompleted_def sid retrieved mapped kept_lines Let_def)
  have w: "webhook_handover env req =
             finish (case handleCheckoutSessionCompleted env session of (cs, ls) \<Rightarrow> (None, cs, ls))"
    by (simp add: webhook_handover_def verified on_event_handover_def kind session)
  show ?thesis
    unfolding w h
    by (auto simp: finish_def Let_def submit_order_def printful_items_length
        split: sum.splits prod.splits)
qed

theorem C5_witness:
  "calls (webhook_handover (stub_env (completed_event example_session)
                     (\<lambda>n. Inr (first_page n [retrieved_with_id, retrieved_without_id])))
            signed_request) =
     [RetrieveSession (JStr ''cs_test_1''),
      PrintfulCreateOrder
        (JObj [(''recipient'', JObj
                 [(''name'', JStr ''Pat Doe''),
                  (''address1'', JStr ''1 Main St''),
                  (''city'', JStr ''Springfield''),
                  (''state_code'', JStr ''IL''),
                  (''country_code'', JStr ''US''),
                  (''zip'', JStr ''62701''),
                  (''email'', JStr ''pat@example.com''),
                  (''phone'', JStr ''555-0100'')]),
               (''items'', JArr
                  [JObj [(''sync_variant_id'', JStr ''4012345678''),
                         (''quantity'', JNum (Finite 2))]])])] \<and>
   calls (webhook_handover (stub_env (completed_event example_session)
                     (\<lambda>n. Inr (first_page n [retrieved_without_id, retrieved_without_id])))
            signed_request) = [RetrieveSession (JStr ''cs_test_1'')] \<and>
   logged (webhook_handover (stub_env (completed_event example_session)
                     (\<lambda>n. Inr (first_page n [retrieved_without_id, retrieved_without_id])))
            signed_request) = [Error ''No valid items for Printful order.''] \<and>
   sent (webhook_handover (stub_env (completed_event example_session)
                     (\<lambda>n. Inr (first_page n [retrieved_without_id, retrieved_without_id])))
            signed_request) = Some \<lparr>status = 200, payload = Text ''Webhook received!''\<rparr> \<and>
   calls (webhook_handover (stub_env (completed_event anonymous_session)
                     (\<lambda>n. Inr (first_page n [retrieved_with_id])))
            signed_request) = [RetrieveSession (JStr ''cs_test_3'')] \<and>
   logged (webhook_handover (stub_env (completed_event anonymous_session)
                     (\<lambda>n. Inr (first_page n [retrieved_with_id])))
            signed_request) = [Error ''Missing customer details in session.''] \<and>
   sent (webhook_handover (stub_env (completed_event anonymous_session)
                     (\<lambda>n. Inr (first_page n [retrieved_with_id])))
            signed_request) = Some \<lparr>status = 200, payload = Text ''Webhook received!''\<rparr>"
proof -
  let ?one = "[retrieved_with_id, retrieved_without_id]"
  let ?none = "[retrieved_without_id, retrieved_without_id]"
  let ?recipient = "JObj
                 [(''name'', JStr ''Pat Doe''),
                  (''address1'', JStr ''1 Main St''),
                  (''city'', JStr ''Springfield''),
                  (''state_code'', JStr ''IL''),
                  (''country_code'', JStr ''US''),
                  (''zip'', JStr ''62701''),
                  (''email'', JStr ''pat@example.com''),
                  (''phone'', JStr ''555-0100'')]"
  let ?lines = "[JObj [(''variant_id'', JNum (Finite 4012345678)), (''quantity'', JNum (Finite 2))],
                 JObj [(''variant_id'', JNum NaN), (''quantity'', JNum (Finite 1))]]"
  have r: "retrieveSession (stub_env ev (\<lambda>n. Inr (first_page n held))) sid =
        Inr (JObj [(''id'', sid), (''line_items'', first_page 100 held)])" for ev held sid
    by (simp add: stub_env_calls)
  have d: "and_then (get (JObj [(''id'', sid), (''line_items'', first_page 100 held)])
              ''line_items'') (\<lambda>line_items. get line_items ''data'') = Inr (JArr held)"
    if "length held \<le> 100" for held sid
    using that by (simp add: get_def first_page_def)
  have m1: "\<forall>item\<in>set ?one. has_product_metadata item"
    and m2: "\<forall>item\<in>set ?none. has_product_metadata item"
    and m3: "\<forall>item\<in>set [retrieved_with_id]. has_product_metadata item"
    by (simp_all add: retrieved_examples)
  have c: "truthy (own_prop example_session ''customer_details'')"
    "\<not> truthy (own_prop anonymous_session ''customer_details'')"
    "get anonymous_session ''id'' = Inr (JStr ''cs_test_3'')"
    by (simp_all add: example_session_def anonymous_session_def get_def)
  have l1: "length ?one \<le> 100" and l2: "length ?none \<le> 100"
    and l3: "length [retrieved_with_id] \<le> 100" by simp_all
  note a = C5_items_without_identifiers
      [OF example_session_id r d [OF l1] m1 verify_stub(1) get_completed_event,
       where recipient = ?recipient and listed = "[listed_with_id, listed_without_id]"
         and orderLines = ?lines]
  note b = C5_items_without_identifiers
      [OF example_session_id r d [OF l2] m2 verify_stub(1) get_completed_event,
       where recipient = ?recipient and listed = "[]" and orderLines = "[]"]
  note e = C5_items_without_identifiers
      [OF c(3) r d [OF l3] m3 verify_stub(1) get_completed_event,
       where recipient = ?recipient and listed = "[]" and orderLines = "[]"]
  show ?thesis
    using a b e c example_order_recipient by (simp add: retrieved_examples)
qed

section \<open>Checkout session creation\<close>

text \<open>
  Claim C6. For a cart of items (none of them \<open>null\<close>), the checkout handler makes
  one call to the payment processor, the creation of a session, and the \<open>line_items\<close>
  of that call are the line items it built: one per cart item, in order, with the item's
  price as the unit amount and the item's quantity, both unchanged. So the sum of unit
  amount times quantity over the line items of the session is the sum of price times
  quantity over the cart. No other call is made: no price is looked up.
\<close>

theorem C6_line_items_carry_price_and_quantity:
  assumes items: "\<forall>item\<in>set cart. \<not> nullish item"
    and body: "\<not> nullish (body req)" "own_prop (body req) ''cart'' = JArr cart"
    and email: "get (own_prop (body req) ''customerInfo'') ''email'' = Inr email"
  shows "\<exists>params lineItems.
           calls (create_checkout_session env req) = [CreateSession params] \<and>
           own_prop params ''line_items'' = JArr lineItems \<and>
           own_prop params ''mode'' = JStr ''payment'' \<and>
           js_map line_item (JArr cart) = Inr lineItems \<and>
           length lineItems = length cart \<and>
           map (\<lambda>li. (own_prop (own_prop li ''price_data'') ''unit_amount'',
                       own_prop li ''quantity'')) lineItems =
             map (\<lambda>item. (own_prop item ''price'', own_prop item ''quantity'')) cart \<and>
           session_total lineItems = cart_total cart"
proof -
  have "\<forall>item\<in>set cart. line_item item = Inr (projr (line_item item))"
    using items line_item_total by fastforce
  then have created: "js_map line_item (JArr cart) = Inr (map (\<lambda>item. projr (line_item item)) cart)"
    by (simp add: map_result_map)
  define lineItems where "lineItems = map (\<lambda>item. projr (line_item item)) cart"
  have c: "js_map line_item (JArr cart) = Inr lineItems"
    using created by (simp add: lineItems_def)
  then have l2: "list_all2 (\<lambda>item li. line_item item = Inr li) cart lineItems"
    by (simp add: map_result_Inr_iff)
  have sent_params: "calls (create_checkout_session env req) =
          [CreateSession (session_params env lineItems email)]"
    using body email c
    by (simp add: create_checkout_session_def Let_def split: sum.splits)
  have held: "own_prop (session_params env lineItems email) ''line_items'' = JArr lineItems"
    "own_prop (session_params env lineItems email) ''mode'' = JStr ''payment''"
    by (simp_all add: session_params_def)
  show ?thesis
    using sent_params held c line_items_pass_through [OF l2] list_all2_lengthD [OF l2]
    by (intro exI [of _ "session_params env lineItems email"] exI [of _ lineItems]) simp
qed

theorem C6_witness:
  "calls (create_checkout_session (stub_env JNull (\<lambda>n. Inl ''unused'')) checkout_request) =
     [CreateSession
        (JObj
           [(''payment_method_types'', JArr [JStr ''card'']),
            (''line_items'', JArr example_line_items),
            (''mode'', JStr ''payment''),
            (''customer_email'', JStr ''pat@example.com''),
            (''success_url'',
               JStr ''https://shop.example/success?session_id={CHECKOUT_SESSION_ID}''),
            (''cancel_url'', JStr ''https://shop.example/cancel''),
            (''shipping_address_collection'',
               JObj [(''allowed_countries'', JArr [JStr ''US'', JStr ''CA''])]),
            (''billing_address_collection'', JStr ''required'')])] \<and>
   length example_line_items = length example_cart \<and>
   session_total example_line_items = 6498 \<and>
   cart_total example_cart = 6498"
proof -
  have items: "\<forall>item\<in>set example_cart. \<not> nullish item"
    by (simp add: example_cart_def)
  have body: "\<not> nullish (body checkout_request)"
    "own_prop (body checkout_request) ''cart'' = JArr example_cart"
    by (simp_all add: checkout_request_def)
  have email: "get (own_prop (body checkout_request) ''customerInfo'') ''email'' =
      Inr (JStr ''pat@example.com'')"
    by (simp add: checkout_request_def get_def)
  obtain params lineItems where
    made: "calls (create_checkout_session (stub_env JNull (\<lambda>n. Inl ''unused'')) checkout_request) =
             [CreateSession params]"
    and held: "own_prop params ''line_items'' = JArr lineItems"
    and built: "js_map line_item (JArr example_cart) = Inr lineItems"
    and len: "length lineItems = length example_cart"
    and total: "session_total lineItems = cart_total example_cart"
    using C6_line_items_carry_price_and_quantity
      [OF items body email, of "stub_env JNull (\<lambda>n. Inl ''unused'')"]
    by blast
  have same: "lineItems = example_line_items"
    using built example_cart_created by simp
  have params: "calls (create_checkout_session (stub_env JNull (\<lambda>n. Inl ''unused''))
                  checkout_request) =
      [CreateSession (session_params (stub_env JNull (\<lambda>n. Inl ''unused'')) example_line_items
         (JStr ''pat@example.com''))]"
    using body email example_cart_created
    by (simp add: create_checkout_session_def Let_def stub_env_calls get_def)
  have sum: "cart_total example_cart = 6498"
    by (simp add: cart_total_def example_cart_def)
  show ?thesis
    using params len total same sum
    by (simp add: session_params_def stub_env_calls)
qed

section \<open>The catalog reader\<close>

text \<open>
  Claim C7. The catalog reader computes \<open>parseFloat(price) * 100\<close> in binary
  floating point and does not round. For the retail price \<open>19.99\<close> the result is the
  Number \<open>8791694975696895 / 2^42\<close>, which JavaScript prints as
  \<open>1998.9999999999998\<close>, and not the integer 1999 of the claim; this is the price in
  the payload of both endpoints.
\<close>

theorem C7_price_19_99_is_not_1999:
  "to_cents (JStr ''19.99'') = JNum (Finite (8791694975696895 / 2 ^ 42)) \<and>
   to_cents (JStr ''19.99'') \<noteq> JNum (Finite 1999) \<and>
   variant_detail priced_variant =
     Inr (JObj [(''id'', JNum (Finite 4012345678)),
                (''name'', JStr ''Dad hat / Black''),
                (''price'', JNum (Finite (8791694975696895 / 2 ^ 42))),
                (''thumbnail_url'', JStr ''mockup.png'')]) \<and>
   product_summary listed_product priced_product =
     Inr (JObj [(''id'', JNum (Finite 301)),
                (''name'', JStr ''No name available''),
                (''thumbnail_url'', JStr ''mockup.png''),
                (''price'', JNum (Finite (8791694975696895 / 2 ^ 42))),
                (''variant_id'', JNum (Finite 4012345678))])"
proof -
  have v: "to_cents (JStr ''19.99'') = JNum (Finite (8791694975696895 / 2 ^ 42))"
    by code_simp
  have d: "variant_detail priced_variant =
     Inr (JObj [(''id'', JNum (Finite 4012345678)),
                (''name'', JStr ''Dad hat / Black''),
                (''price'', to_cents (JStr ''19.99'')),
                (''thumbnail_url'', JStr ''mockup.png'')])"
    by (simp add: variant_detail_def priced_variant_def get_def opt_get_def js_or_def)
  have s: "product_summary listed_product priced_product =
     Inr (JObj [(''id'', JNum (Finite 301)),
                (''name'', JStr ''No name available''),
                (''thumbnail_url'', JStr ''mockup.png''),
                (''price'', to_cents (JStr ''19.99'')),
                (''variant_id'', JNum (Finite 4012345678))])"
    by (simp add: product_summary_def priced_product_def priced_variant_def listed_product_def
        get_def get_first_def opt_get_def opt_first_def js_or_def)
  show ?thesis unfolding d s v by simp
qed

text \<open>
  Claim C8. The list endpoint does what the claim says for the name and the image. The
  detail endpoint does not: for a product with no name whose variant has no preview
  file, it answers with the name left \<open>undefined\<close> and the variant's image \<open>null\<close>,
  although the product has a thumbnail.
\<close>

theorem C8_detail_payload_has_no_fallback:
  "get_product catalog_env ''301'' =
     \<lparr>sent = Some \<lparr>status = 200, payload = Json (JObj
         [(''id'', JNum (Finite 301)),
          (''name'', JUndefined),
          (''description'', JStr ''No description available''),
          (''thumbnail_url'', JStr ''hat.png''),
          (''variants'', JArr
             [JObj [(''id'', JNum (Finite 4012345678)),
                    (''name'', JStr ''Dad hat / Black''),
                    (''price'', JNum (Finite 2500)),
                    (''thumbnail_url'', JNull)]])])\<rparr>,
      calls = [PrintfulGetProduct (JStr ''301'')], logged = []\<rparr>"
  by (simp add: get_product_def catalog_env_calls get_def plain_product_detail)
     (simp add: plain_detail_def)

text \<open>
  Claim C8, as amended. In an entry of the product list, a name that is absent (or
  empty) is replaced by \<open>No name available\<close>, and when the first variant has no
  preview file the image is the product thumbnail, or \<open>default_image_url\<close> when that
  is absent too. In a product detail, an absent description is replaced by
  \<open>No description available\<close>, the name is passed on as it is, and a variant without
  a preview file gets the image \<open>null\<close>.
\<close>

theorem C8_catalog_fallbacks:
  "(product_summary product details = Inr entry \<longrightarrow>
      own_prop entry ''name'' =
        (if truthy (own_prop product ''name'') then own_prop product ''name''
         else JStr ''No name available'') \<and>
      (lacks_preview (opt_first (own_prop details ''sync_variants'')) \<longrightarrow>
         own_prop entry ''thumbnail_url'' =
           (if truthy (own_prop product ''thumbnail_url'') then own_prop product ''thumbnail_url''
            else JStr ''default_image_url''))) \<and>
   (product_details result = Inr detail \<longrightarrow>
      own_prop detail ''description'' =
        (if truthy (own_prop (own_prop result ''sync_product'') ''description'')
         then own_prop (own_prop result ''sync_product'') ''description''
         else JStr ''No description available'') \<and>
      own_prop detail ''name'' = own_prop (own_prop result ''sync_product'') ''name'') \<and>
   (variant_detail variant = Inr shown \<longrightarrow> lacks_preview variant \<longrightarrow>
      own_prop shown ''thumbnail_url'' = JNull)"
  using product_summary_fields [of product details entry]
    product_details_fields [of result detail] variant_detail_lacking [of variant shown]
  by (simp add: js_or_def)

theorem C8_witness:
  "own_prop plain_entry ''name'' = JStr ''No name available'' \<and>
   own_prop plain_entry ''thumbnail_url'' = JStr ''hat.png'' \<and>
   own_prop plain_detail ''description'' = JStr ''No description available'' \<and>
   own_prop plain_detail ''name'' = JUndefined \<and>
   own_prop bare_variant_shown ''thumbnail_url'' = JNull"
proof -
  have l1: "lacks_preview (opt_first (own_prop plain_product ''sync_variants''))"
    by (simp add: plain_product_def opt_first_def lacks_preview_def)
  have l2: "lacks_preview bare_variant"
    by (simp add: lacks_preview_def bare_variant_def)
  have p: "own_prop listed_product ''name'' = JUndefined"
    "own_prop listed_product ''thumbnail_url'' = JStr ''hat.png''"
    "own_prop (own_prop plain_product ''sync_product'') ''description'' = JUndefined"
    "own_prop (own_prop plain_product ''sync_product'') ''name'' = JUndefined"
    by (simp_all add: listed_product_def plain_product_def)
  show ?thesis
    using C8_catalog_fallbacks
      [of listed_product plain_product plain_entry plain_product plain_detail
          bare_variant bare_variant_shown]
      plain_product_summary plain_product_detail bare_variant_detail l1 l2
    by (simp add: p)
qed

section \<open>The recipient of the order\<close>

text \<open>
  Claim C9. Neither server file builds the recipient the claim describes. In server.js
  the recipient has no phone (and no email) field, whether or not the customer gave a
  phone number. In the file that defines \<open>handleCheckoutSessionCompleted\<close> the
  recipient has no second address line and the country code has no default.
\<close>

theorem C9_phone_is_not_carried_over:
  "recipient_of example_session =
     Inr (JObj
         [(''name'', JStr ''Pat Doe''),
          (''address1'', JStr ''1 Main St''),
          (''address2'', JStr ''''),
          (''city'', JStr ''Springfield''),
          (''state_code'', JStr ''IL''),
          (''country_code'', JStr ''US''),
          (''zip'', JStr ''62701'')]) \<and>
   own_prop (own_prop example_session ''customer_details'') ''phone'' = JStr ''555-0100'' \<and>
   order_recipient sparse_session =
     Inr (JObj
         [(''name'', JStr ''No Name''),
          (''address1'', JStr ''2 Side St''),
          (''city'', JStr ''Shelbyville''),
          (''state_code'', JStr ''IL''),
          (''country_code'', JUndefined),
          (''zip'', JStr ''62565''),
          (''email'', JStr ''sam@example.com''),
          (''phone'', JStr '''')])"
  by (simp add: example_recipient)
     (simp add: example_session_def sparse_session_def order_recipient_def get_def js_or_def)

text \<open>
  Claim C9, as amended. In server.js the recipient has exactly the fields name,
  address1, address2, city, state_code, country_code and zip, taken from the session's
  customer details; an absent (or empty) name becomes \<open>No Name Provided\<close>, an absent
  country \<open>US\<close>, and every other absent field the empty string. In the file that
  defines \<open>handleCheckoutSessionCompleted\<close> the recipient has the fields name,
  address1, city, state_code, country_code, zip, email and phone; an absent name becomes
  \<open>No Name\<close>, an absent phone the empty string, the email is the session's customer
  email, and the address fields are copied as they are.
\<close>

theorem C9_recipient_defaults:
  "(recipient_of session = Inr recipient \<longrightarrow>
      recipient =
        (let customer_details = own_prop session ''customer_details'';
             address = own_prop customer_details ''address'';
             or_else = (\<lambda>v d. if truthy v then v else d)
         in JObj
           [(''name'', or_else (own_prop customer_details ''name'') (JStr ''No Name Provided'')),
            (''address1'', or_else (own_prop address ''line1'') (JStr '''')),
            (''address2'', or_else (own_prop address ''line2'') (JStr '''')),
            (''city'', or_else (own_prop address ''city'') (JStr '''')),
            (''state_code'', or_else (own_prop address ''state'') (JStr '''')),
            (''country_code'', or_else (own_prop address ''country'') (JStr ''US'')),
            (''zip'', or_else (own_prop address ''postal_code'') (JStr ''''))])) \<and>
   (order_recipient session = Inr recipient' \<longrightarrow>
      recipient' =
        (let customer_details = own_prop session ''customer_details'';
             address = own_prop customer_details ''address'';
             or_else = (\<lambda>v d. if truthy v then v else d)
         in JObj
           [(''name'', or_else (own_prop customer_details ''name'') (JStr ''No Name'')),
            (''address1'', own_prop address ''line1''),
            (''city'', own_prop address ''city''),
            (''state_code'', own_prop address ''state''),
            (''country_code'', own_prop address ''country''),
            (''zip'', own_prop address ''postal_code''),
            (''email'', own_prop session ''customer_email''),
            (''phone'', or_else (own_prop customer_details ''phone'') (JStr ''''))]))"
  by (auto simp: recipient_of_def order_recipient_def get_def and_then_def js_or_def Let_def
      split: if_splits)

theorem C9_witness:
  "recipient_of sparse_session =
     Inr (JObj
         [(''name'', JStr ''No Name Provided''),
          (''address1'', JStr ''2 Side St''),
          (''address2'', JStr ''''),
          (''city'', JStr ''Shelbyville''),
          (''state_code'', JStr ''IL''),
          (''country_code'', JStr ''US''),
          (''zip'', JStr ''62565'')]) \<and>
   order_recipient example_session =
     Inr (JObj
         [(''name'', JStr ''Pat Doe''),
          (''address1'', JStr ''1 Main St''),
          (''city'', JStr ''Springfield''),
          (''state_code'', JStr ''IL''),
          (''country_code'', JStr ''US''),
          (''zip'', JStr ''62701''),
          (''email'', JStr ''pat@example.com''),
          (''phone'', JStr ''555-0100'')])"
proof -
  obtain r where r: "recipient_of sparse_session = Inr r"
    by (simp add: recipient_of_def sparse_session_def get_def)
  obtain r' where r': "order_recipient example_session = Inr r'"
    by (simp add: order_recipient_def example_session_def get_def)
  have "r = JObj
         [(''name'', JStr ''No Name Provided''),
          (''address1'', JStr ''2 Side St''),
          (''address2'', JStr ''''),
          (''city'', JStr ''Shelbyville''),
          (''state_code'', JStr ''IL''),
          (''country_code'', JStr ''US''),
          (''zip'', JStr ''62565'')]"
    using C9_recipient_defaults [where session = sparse_session and recipient = r] r
    by (simp add: sparse_session_def)
  moreover have "r' = JObj
         [(''name'', JStr ''Pat Doe''),
          (''address1'', JStr ''1 Main St''),
          (''city'', JStr ''Springfield''),
          (''state_code'', JStr ''IL''),
          (''country_code'', JStr ''US''),
          (''zip'', JStr ''62701''),
          (''email'', JStr ''pat@example.com''),
          (''phone'', JStr ''555-0100'')]"
    using C9_recipient_defaults [where session = example_session and recipient' = r'] r'
    by (simp add: example_session_def)
  ultimately show ?thesis using r r' by simp
qed

text \<open>
  Claim C10. The webhook of server.js fetches the line items with one list call of
  limit 100 and never asks for a further page. When the processor answers with the first
  100 of the items it holds, the order has one line for each of those and none for the
  rest, so it has at most 100 lines; the answer is 200 all the same.
\<close>

theorem C10_one_page_of_100_line_items:
  assumes verified: "verify env req = Inr event"
    and kind: "get event ''type'' = Inr (JStr ''checkout.session.completed'')"
    and session: "and_then (get event ''data'') (\<lambda>d. get d ''object'') = Inr session"
    and sid: "get session ''id'' = Inr sid"
    and listed: "listLineItems env sid 100 = Inr (first_page 100 held)"
    and translated: "js_map printful_item (JArr (take 100 held)) = Inr orderLines"
    and recipient: "recipient_of session = Inr recipient"
  shows "calls (webhook env req) =
           [ListLineItems sid 100,
            PrintfulCreateOrder
              (JObj [(''recipient'', recipient),
                     (''items'', JArr orderLines),
                     (''confirm'', JNum (Finite 1))])] \<and>
         length orderLines = min 100 (length held) \<and>
         length orderLines \<le> 100 \<and>
         sent (webhook env req) = Some \<lparr>status = 200, payload = Text ''Webhook received!''\<rparr>"
proof -
  have "list_all2 (\<lambda>item line. printful_item item = Inr line) (take 100 held) orderLines"
    using translated by (simp add: map_result_Inr_iff)
  then have len: "length orderLines = min 100 (length held)"
    using list_all2_lengthD by fastforce
  have page: "and_then (get (first_page 100 held) ''data'') (js_map printful_item) = Inr orderLines"
    using translated by (simp add: first_page_def get_def)
  show ?thesis
    using len
    by (simp add: webhook_def verified on_event_def kind session on_completed_def sid
        listed page recipient submit_order_def finish_def split: sum.splits)
qed

theorem C10_witness:
  "calls (webhook (stub_env (completed_event example_session)
                     (\<lambda>n. Inr (first_page n (replicate 101 listed_with_id))))
            signed_request) =
     [ListLineItems (JStr ''cs_test_1'') 100,
      PrintfulCreateOrder
        (JObj [(''recipient'', JObj
                  [(''name'', JStr ''Pat Doe''),
                   (''address1'', JStr ''1 Main St''),
                   (''address2'', JStr ''''),
                   (''city'', JStr ''Springfield''),
                   (''state_code'', JStr ''IL''),
                   (''country_code'', JStr ''US''),
                   (''zip'', JStr ''62701'')]),
               (''items'', JArr (replicate 100
                  (JObj [(''variant_id'', JNum (Finite 4012345678)),
                         (''quantity'', JNum (Finite 2))]))),
               (''confirm'', JNum (Finite 1))])] \<and>
   length (replicate 101 listed_with_id) = 101"
proof -
  have listed:
    "listLineItems (stub_env (completed_event example_session)
         (\<lambda>n. Inr (first_page n (replicate 101 listed_with_id)))) (JStr ''cs_test_1'') 100 =
       Inr (first_page 100 (replicate 101 listed_with_id))"
    by (simp add: stub_env_calls)
  have translated:
    "js_map printful_item (JArr (take 100 (replicate 101 listed_with_id))) =
       Inr (replicate 100
              (JObj [(''variant_id'', JNum (Finite 4012345678)), (''quantity'', JNum (Finite 2))]))"
    by (simp add: map_result_replicate listed_pair_translated)
  show ?thesis
    using C10_one_page_of_100_line_items
      [OF verify_stub(1) get_completed_event example_session_id listed translated
          example_recipient]
    by simp
qed

end
